theory Spec2Isabelle
  imports Complex_Main "HOL-Library.Monad_Syntax"
begin

section \<open>Chart-based DensePose loss (densepose/modeling/losses/chart.py)\<close>

text \<open>
  The embedding follows \<^verbatim>\<open>DensePoseChartLoss\<close> method by method. Tensor elements are
  exact reals: rounding, infinities and NaN inputs of floating point are outside the
  model. The one not-a-number the code itself can create, the mean of an empty tensor,
  is kept as the value \<open>NaN\<close>. A call that raises (whatever the exception) is \<open>None\<close>.
\<close>

subsection \<open>Tensors, autograd provenance and scalars\<close>

text \<open>
  A dense tensor is its shape and its elements in row-major order. A value that takes
  part in the differentiable graph is wrapped in \<open>var\<close>: \<open>graph\<close> is the set of
  upstream graph nodes the value depends on, empty for a constant and for anything
  computed under \<^verbatim>\<open>torch.no_grad()\<close>.
\<close>

record tensor =
  shape :: "nat list"
  elems :: "real list"

type_synonym node = nat

record 'a var =
  data :: 'a
  graph :: "node set"

datatype fnum = Finite real | NaN

type_synonym scalar = "fnum var"

type_synonym LossDict = "string \<rightharpoonup> scalar"

definition const :: "'a \<Rightarrow> 'a var" where
  "const x = \<lparr>data = x, graph = {}\<rparr>"

definition detach :: "'a var \<Rightarrow> 'a var" where
  \<comment> \<open>the value of an expression evaluated under \<^verbatim>\<open>with torch.no_grad()\<close>\<close>
  "detach x = \<lparr>data = data x, graph = {}\<rparr>"

definition tsum :: "tensor var \<Rightarrow> scalar" where
  \<comment> \<open>\<^verbatim>\<open>t.sum()\<close>\<close>
  "tsum t = \<lparr>data = Finite (sum_list (elems (data t))), graph = graph t\<rparr>"

fun fmul :: "fnum \<Rightarrow> real \<Rightarrow> fnum" where
  "fmul (Finite x) w = Finite (x * w)"
| "fmul NaN w = NaN"

definition smul :: "scalar \<Rightarrow> real \<Rightarrow> scalar" where
  \<comment> \<open>a scalar tensor times a Python number: same graph\<close>
  "smul s w = \<lparr>data = fmul (data s) w, graph = graph s\<rparr>"

definition vsum :: "real list var \<Rightarrow> scalar" where
  "vsum xs = \<lparr>data = Finite (sum_list (data xs)), graph = graph xs\<rparr>"

definition vmean :: "real list var \<Rightarrow> scalar" where
  \<comment> \<open>\<^verbatim>\<open>t.mean()\<close>: the mean of an empty tensor is nan\<close>
  "vmean xs = \<lparr>data = (if data xs = [] then NaN
                         else Finite (sum_list (data xs) / real (length (data xs)))),
               graph = graph xs\<rparr>"

subsection \<open>Indexing\<close>

definition index_mask :: "'a list \<Rightarrow> bool list \<Rightarrow> 'a list option" where
  \<comment> \<open>\<^verbatim>\<open>xs[mask]\<close> along the first axis; IndexError when the mask has another length\<close>
  "index_mask xs m =
     (if length xs = length m then Some (map fst (filter snd (zip xs m))) else None)"

definition vindex_mask :: "'a list var \<Rightarrow> bool list \<Rightarrow> 'a list var option" where
  "vindex_mask xs m = map_option (\<lambda>d. \<lparr>data = d, graph = graph xs\<rparr>) (index_mask (data xs) m)"

definition true_positions :: "bool list \<Rightarrow> nat list" where
  "true_positions m = filter (\<lambda>i. m ! i) [0..<length m]"

fun masked_assign :: "'a list \<Rightarrow> bool list \<Rightarrow> 'a list \<Rightarrow> 'a list option" where
  \<comment> \<open>\<^verbatim>\<open>xs[mask] = ys\<close>: the values of \<open>ys\<close> go, in order, to the positions the mask selects\<close>
  "masked_assign [] [] [] = Some []"
| "masked_assign (x # xs) (b # m) ys =
     (if b then (case ys of [] \<Rightarrow> None
                 | y # ys' \<Rightarrow> map_option ((#) y) (masked_assign xs m ys'))
      else map_option ((#) x) (masked_assign xs m ys))"
| "masked_assign _ _ _ = None"

subsection \<open>Configuration and the loss object\<close>

record cfg =
  HEATMAP_SIZE :: nat
  POINT_REGRESSION_WEIGHTS :: real
  PART_WEIGHTS :: real
  INDEX_WEIGHTS :: real
  NUM_COARSE_SEGM_CHANNELS :: nat
  COARSE_SEGM_TRAINED_BY_MASKS :: bool
  SEMI_SEGM_WEIGHTS :: real
  SEMI_POINTS_WEIGHTS :: real
  SEMI_THRESHOLD :: real
  NUM_PATCHES :: nat
  SEMI_LOSS_NAME :: string
  SEMI_UV_LOSS_CHANNELS :: nat
  SEMI_COR_POINTS_WEIGHTS :: real
  SEMI_COR_SEGM_WEIGHTS :: real

record predictor_output =
  coarse_segm :: "tensor var"
  fine_segm :: "tensor var"
  u :: "tensor var"
  v :: "tensor var"

text \<open>\<^verbatim>\<open>CorrectorPredictorOutput\<close>: its attributes \<^verbatim>\<open>u\<close>, \<^verbatim>\<open>v\<close>, \<^verbatim>\<open>fine_segm\<close>.\<close>

record corrector_output =
  crt_u :: "tensor var"
  crt_v :: "tensor var"
  crt_fine_segm :: "tensor var"

record packed_annotations =
  u_gt :: "real list"
  v_gt :: "real list"
  fine_segm_labels_gt :: "nat list"
  coarse_segm_gt :: tensor
  bbox_xywh_gt :: tensor
  bbox_xywh_est :: tensor
  bbox_indices :: "nat list"
  fine_segm_p :: "tensor option"
  u_p :: "tensor option"
  v_p :: "tensor option"

text \<open>
  The state of \<^verbatim>\<open>BilinearInterpolationHelper\<close> that chart.py reads; whatever else the
  helper keeps is the extension of the record.
\<close>

record interpolator =
  j_valid :: "bool list"
  w_ylo_xlo :: "real list"
  w_ylo_xhi :: "real list"
  w_yhi_xlo :: "real list"
  w_yhi_xhi :: "real list"

datatype interp_mode = Nearest | Bilinear
datatype padding_mode = Zeros | Border

text \<open>
  The collaborators imported from \<^verbatim>\<open>.utils\<close> and \<^verbatim>\<open>.mask_or_segm\<close>, which are not
  part of chart.py, are parameters of the model: \<open>'p\<close> is \<^verbatim>\<open>Instances\<close>, \<open>'i\<close> the rest
  of the interpolation helper. \<open>extract_at_points\<close> is the call with the default
  arguments (one value per point), \<open>extract_at_points_sliced\<close> the call with
  \<^verbatim>\<open>slice_fine_segm=slice(None)\<close> and the four weight columns (one row of channel values
  per point). A segmentation loss object is the function its \<^verbatim>\<open>__call__\<close> computes.
\<close>

type_synonym 'p segm_loss_fn = "'p list \<Rightarrow> predictor_output \<Rightarrow> packed_annotations \<Rightarrow> scalar"

record ('p, 'i) collaborators =
  MaskOrSegmentationLoss :: "cfg \<Rightarrow> 'p segm_loss_fn option"
  extract_packed_annotations_from_matches :: "'p list \<Rightarrow> packed_annotations option"
  from_matches :: "packed_annotations \<Rightarrow> nat \<times> nat \<Rightarrow> 'i interpolator_scheme"
  extract_at_points :: "'i interpolator_scheme \<Rightarrow> tensor \<Rightarrow> real list"
  extract_at_points_sliced ::
    "'i interpolator_scheme \<Rightarrow> tensor \<Rightarrow> real list list \<Rightarrow> real list list \<Rightarrow>
       real list list \<Rightarrow> real list list \<Rightarrow> real list list"
  resample_data ::
    "tensor \<Rightarrow> tensor \<Rightarrow> tensor \<Rightarrow> nat \<Rightarrow> nat \<Rightarrow> interp_mode \<Rightarrow> padding_mode \<Rightarrow> tensor"

record 'p chart_loss =
  heatmap_size :: nat
  w_points :: real
  w_part :: real
  w_segm :: real
  n_segm_chan :: nat
  segm_trained_by_masks :: bool
  segm_loss :: "'p segm_loss_fn"
  w_p_segm :: real
  w_p_points :: real
  pseudo_threshold :: real
  n_channels :: nat
  loss_name :: string
  uv_loss_channels :: nat
  w_crt_points :: real
  w_crt_segm :: real
  log2pi :: real

definition init :: "('p, 'i) collaborators \<Rightarrow> cfg \<Rightarrow> 'p chart_loss option" where
  \<comment> \<open>\<^verbatim>\<open>__init__\<close>: only the constructor of the segmentation loss can raise\<close>
  "init X c = do {
     sl \<leftarrow> MaskOrSegmentationLoss X c;
     Some \<lparr>heatmap_size = HEATMAP_SIZE c,
           w_points = POINT_REGRESSION_WEIGHTS c,
           w_part = PART_WEIGHTS c,
           w_segm = INDEX_WEIGHTS c,
           n_segm_chan = NUM_COARSE_SEGM_CHANNELS c,
           segm_trained_by_masks = COARSE_SEGM_TRAINED_BY_MASKS c,
           segm_loss = sl,
           w_p_segm = SEMI_SEGM_WEIGHTS c,
           w_p_points = SEMI_POINTS_WEIGHTS c,
           pseudo_threshold = SEMI_THRESHOLD c,
           n_channels = NUM_PATCHES c + 1,
           loss_name = SEMI_LOSS_NAME c,
           uv_loss_channels = SEMI_UV_LOSS_CHANNELS c,
           w_crt_points = SEMI_COR_POINTS_WEIGHTS c,
           w_crt_segm = SEMI_COR_SEGM_WEIGHTS c,
           log2pi = ln (2 * pi)\<rparr>
   }"

subsection \<open>Fake losses\<close>

definition segm_loss_fake_value :: "predictor_output \<Rightarrow> scalar" where
  \<comment> \<open>Modelled from the spec: \<^verbatim>\<open>MaskOrSegmentationLoss.fake_value\<close> (mask_or_segm.py is not
      among the sources). The spec gives \<^verbatim>\<open>fakeValue(predictorOutput) -> scalar\<close>, zero and
      graph-connected, formed like every fake value by summing the corresponding output
      tensor, here the coarse segmentation, and multiplying by zero.\<close>
  "segm_loss_fake_value out = smul (tsum (coarse_segm out)) 0"

definition produce_fake_densepose_losses_uv ::
  "predictor_output \<Rightarrow> corrector_output option \<Rightarrow> LossDict" where
  "produce_fake_densepose_losses_uv out corrections =
     (let losses = [''loss_densepose_U'' \<mapsto> smul (tsum (u out)) 0,
                    ''loss_densepose_V'' \<mapsto> smul (tsum (v out)) 0]
      in case corrections of
           None \<Rightarrow> losses
         | Some c \<Rightarrow> losses ++ [''loss_correction_U'' \<mapsto> smul (tsum (crt_u c)) 0,
                                ''loss_correction_V'' \<mapsto> smul (tsum (crt_v c)) 0])"

definition produce_fake_densepose_losses_unsup :: "predictor_output \<Rightarrow> LossDict" where
  "produce_fake_densepose_losses_unsup out =
     [''loss_unsup_segm'' \<mapsto> smul (tsum (fine_segm out)) 0,
      ''loss_u_p'' \<mapsto> smul (tsum (u out)) 0,
      ''loss_v_p'' \<mapsto> smul (tsum (v out)) 0]"

definition produce_fake_densepose_losses_segm ::
  "predictor_output \<Rightarrow> corrector_output option \<Rightarrow> LossDict" where
  "produce_fake_densepose_losses_segm out corrections =
     (let losses = [''loss_densepose_I'' \<mapsto> smul (tsum (fine_segm out)) 0,
                    ''loss_densepose_S'' \<mapsto> segm_loss_fake_value out]
      in case corrections of
           None \<Rightarrow> losses
         | Some c \<Rightarrow> losses ++ [''loss_correction_I'' \<mapsto> smul (tsum (crt_fine_segm c)) 0])"

definition produce_fake_densepose_losses ::
  "predictor_output \<Rightarrow> corrector_output option \<Rightarrow> LossDict" where
  "produce_fake_densepose_losses out corrections =
     (let losses_uv = produce_fake_densepose_losses_uv out corrections;
          losses_segm = produce_fake_densepose_losses_segm out corrections;
          losses_unsup = produce_fake_densepose_losses_unsup out
      in losses_uv ++ losses_segm ++ losses_unsup)"

subsection \<open>The torch functions the losses are built from\<close>

definition smooth_l1 :: "real \<Rightarrow> real \<Rightarrow> real" where
  \<comment> \<open>one element of \<^verbatim>\<open>F.smooth_l1_loss\<close> with the default \<^verbatim>\<open>beta = 1\<close>\<close>
  "smooth_l1 x y = (let d = \<bar>x - y\<bar> in if d < 1 then 0.5 * d\<^sup>2 else d - 0.5)"

definition smooth_l1_loss_none :: "real list var \<Rightarrow> real list var \<Rightarrow> real list var option" where
  \<comment> \<open>\<^verbatim>\<open>reduction='none'\<close>; operands of different lengths raise\<close>
  "smooth_l1_loss_none inp tgt =
     (if length (data inp) = length (data tgt)
      then Some \<lparr>data = map2 smooth_l1 (data inp) (data tgt), graph = graph inp \<union> graph tgt\<rparr>
      else None)"

definition smooth_l1_loss_sum :: "real list var \<Rightarrow> real list var \<Rightarrow> scalar option" where
  \<comment> \<open>\<^verbatim>\<open>reduction='sum'\<close>\<close>
  "smooth_l1_loss_sum inp tgt = map_option vsum (smooth_l1_loss_none inp tgt)"

definition ce_row :: "real list \<Rightarrow> nat \<Rightarrow> real option" where
  \<comment> \<open>softmax cross-entropy of one row of scores; a target outside the row raises\<close>
  "ce_row row t = (if t < length row then Some (ln (\<Sum>x\<leftarrow>row. exp x) - row ! t) else None)"

definition cross_entropy_none :: "real list list var \<Rightarrow> nat list \<Rightarrow> real list var option" where
  \<comment> \<open>\<^verbatim>\<open>F.cross_entropy(input, target, reduction='none')\<close>\<close>
  "cross_entropy_none inp tgt =
     (if length (data inp) = length tgt
      then map_option (\<lambda>d. \<lparr>data = d, graph = graph inp\<rparr>) (those (map2 ce_row (data inp) tgt))
      else None)"

definition cross_entropy :: "real list list var \<Rightarrow> nat list \<Rightarrow> scalar option" where
  \<comment> \<open>\<^verbatim>\<open>F.cross_entropy(input, target)\<close>, mean-reduced\<close>
  "cross_entropy inp tgt = map_option vmean (cross_entropy_none inp tgt)"

definition clamp :: "real \<Rightarrow> real \<Rightarrow> real \<Rightarrow> real" where
  "clamp lo hi x = min (max x lo) hi"

definition vclamp :: "real list var \<Rightarrow> real \<Rightarrow> real \<Rightarrow> real list var" where
  "vclamp xs lo hi = \<lparr>data = map (clamp lo hi) (data xs), graph = graph xs\<rparr>"

definition vsub :: "real list var \<Rightarrow> real list var \<Rightarrow> real list var option" where
  "vsub a b =
     (if length (data a) = length (data b)
      then Some \<lparr>data = map2 (-) (data a) (data b), graph = graph a \<union> graph b\<rparr>
      else None)"

fun row_max :: "real list \<Rightarrow> real option" where
  "row_max [] = None"
| "row_max (x # xs) = Some (fold max xs x)"

definition argmax_row :: "real list \<Rightarrow> nat option" where
  \<comment> \<open>the index of the first maximal value\<close>
  "argmax_row row =
     (case row_max row of None \<Rightarrow> None
      | Some m \<Rightarrow> Some (length (takeWhile (\<lambda>x. x \<noteq> m) row)))"

definition argmax_dim1 :: "real list list \<Rightarrow> nat list option" where
  "argmax_dim1 rows = those (map argmax_row rows)"

definition ne_elementwise :: "nat list \<Rightarrow> nat list \<Rightarrow> bool list option" where
  "ne_elementwise xs ys = (if length xs = length ys then Some (map2 (\<noteq>) xs ys) else None)"

subsection \<open>Point extraction\<close>

definition vextract_at_points ::
  "('p, 'i) collaborators \<Rightarrow> 'i interpolator_scheme \<Rightarrow> tensor var \<Rightarrow> real list var" where
  "vextract_at_points X itp z = \<lparr>data = extract_at_points X itp (data z), graph = graph z\<rparr>"

definition vextract_at_points_sliced ::
  "('p, 'i) collaborators \<Rightarrow> 'i interpolator_scheme \<Rightarrow> tensor var \<Rightarrow> real list list var" where
  \<comment> \<open>the weights are passed as columns, \<^verbatim>\<open>w[:, None]\<close>\<close>
  "vextract_at_points_sliced X itp z =
     \<lparr>data = extract_at_points_sliced X itp (data z)
               (map (\<lambda>w. [w]) (w_ylo_xlo itp)) (map (\<lambda>w. [w]) (w_ylo_xhi itp))
               (map (\<lambda>w. [w]) (w_yhi_xlo itp)) (map (\<lambda>w. [w]) (w_yhi_xhi itp)),
      graph = graph z\<rparr>"

subsection \<open>Losses for U/V coordinates\<close>

definition produce_densepose_losses_uv ::
  "('p, 'i) collaborators \<Rightarrow> 'p chart_loss \<Rightarrow> 'p list \<Rightarrow> predictor_output \<Rightarrow>
     packed_annotations \<Rightarrow> 'i interpolator_scheme \<Rightarrow> bool list \<Rightarrow>
     corrector_output option \<Rightarrow> LossDict option" where
  "produce_densepose_losses_uv X L proposals_with_gt out pa itp j_valid_fg corrections = do {
     u_gt' \<leftarrow> vindex_mask (const (u_gt pa)) j_valid_fg;
     u_est \<leftarrow> vindex_mask (vextract_at_points X itp (u out)) j_valid_fg;
     v_gt' \<leftarrow> vindex_mask (const (v_gt pa)) j_valid_fg;
     v_est \<leftarrow> vindex_mask (vextract_at_points X itp (v out)) j_valid_fg;
     lu \<leftarrow> smooth_l1_loss_sum u_est u_gt';
     lv \<leftarrow> smooth_l1_loss_sum v_est v_gt';
     let loss = [''loss_densepose_U'' \<mapsto> smul lu (w_points L),
                 ''loss_densepose_V'' \<mapsto> smul lv (w_points L)];
     case corrections of
       None \<Rightarrow> Some loss
     | Some c \<Rightarrow> do {
         u_crt_est \<leftarrow> vindex_mask (vextract_at_points X itp (crt_u c)) j_valid_fg;
         v_crt_est \<leftarrow> vindex_mask (vextract_at_points X itp (crt_v c)) j_valid_fg;
         u_crt_gt \<leftarrow> map_option detach (vsub u_gt' (vclamp u_est 0 1));
         v_crt_gt \<leftarrow> map_option detach (vsub v_gt' (vclamp v_est 0 1));
         lcu \<leftarrow> smooth_l1_loss_sum u_crt_est u_crt_gt;
         lcv \<leftarrow> smooth_l1_loss_sum v_crt_est v_crt_gt;
         Some (loss ++ [''loss_correction_U'' \<mapsto> smul lcu (w_crt_points L),
                        ''loss_correction_V'' \<mapsto> smul lcv (w_crt_points L)])
       }
   }"

subsection \<open>Losses for fine and coarse segmentation\<close>

definition produce_densepose_losses_segm ::
  "('p, 'i) collaborators \<Rightarrow> 'p chart_loss \<Rightarrow> 'p list \<Rightarrow> predictor_output \<Rightarrow>
     packed_annotations \<Rightarrow> 'i interpolator_scheme \<Rightarrow> bool list \<Rightarrow>
     corrector_output option \<Rightarrow> LossDict option" where
  "produce_densepose_losses_segm X L proposals_with_gt out pa itp j_valid_fg corrections = do {
     fine_segm_gt \<leftarrow> index_mask (fine_segm_labels_gt pa) (j_valid itp);
     fine_segm_est \<leftarrow> vindex_mask (vextract_at_points_sliced X itp (fine_segm out)) (j_valid itp);
     li \<leftarrow> cross_entropy fine_segm_est fine_segm_gt;
     let loss = [''loss_densepose_I'' \<mapsto> smul li (w_part L),
                 ''loss_densepose_S'' \<mapsto>
                    smul (segm_loss L proposals_with_gt out pa) (w_segm L)];
     case corrections of
       None \<Rightarrow> Some loss
     | Some c \<Rightarrow> do {
         fine_segm_crt_est \<leftarrow>
           vindex_mask (vextract_at_points_sliced X itp (crt_fine_segm c)) (j_valid itp);
         let ones_times_n = map (\<lambda>_. 1 * n_channels L) fine_segm_gt;
         am \<leftarrow> argmax_dim1 (data fine_segm_est);
         index \<leftarrow> ne_elementwise am fine_segm_gt;
         picked \<leftarrow> index_mask fine_segm_gt index;
         fine_segm_crt_gt \<leftarrow> masked_assign ones_times_n index picked;
         crt_loss \<leftarrow> cross_entropy_none fine_segm_crt_est fine_segm_crt_gt;
         agreed \<leftarrow> index_mask (data crt_loss) (map Not index);
         doubled \<leftarrow> masked_assign (data crt_loss) (map Not index) (map (\<lambda>x. x * 2) agreed);
         Some (loss ++ [''loss_correction_I'' \<mapsto>
                  smul (vmean \<lparr>data = doubled, graph = graph crt_loss\<rparr>) (w_crt_segm L)])
       }
   }"

subsection \<open>Dense tensor operations of the pseudo-label branch\<close>

definition index_select :: "tensor \<Rightarrow> nat list \<Rightarrow> tensor option" where
  \<comment> \<open>\<^verbatim>\<open>t[indices]\<close> along the first axis; an index past the end raises\<close>
  "index_select t idx =
     (case shape t of
        [] \<Rightarrow> None
      | n # rest \<Rightarrow>
          if list_all (\<lambda>i. i < n) idx
          then Some \<lparr>shape = length idx # rest,
                     elems = concat (map (\<lambda>i. take (prod_list rest)
                                               (drop (i * prod_list rest) (elems t))) idx)\<rparr>
          else None)"

definition permute_0231 :: "tensor \<Rightarrow> tensor option" where
  \<comment> \<open>\<^verbatim>\<open>t.permute(0, 2, 3, 1)\<close> of a tensor with four axes\<close>
  "permute_0231 t =
     (case shape t of
        [n, c, h, w] \<Rightarrow>
          Some \<lparr>shape = [n, h, w, c],
                elems = [elems t ! (((i * c + k) * h + y) * w + x).
                           i \<leftarrow> [0..<n], y \<leftarrow> [0..<h], x \<leftarrow> [0..<w], k \<leftarrow> [0..<c]]\<rparr>
      | _ \<Rightarrow> None)"

definition reshape_rows :: "tensor \<Rightarrow> nat \<Rightarrow> real list list option" where
  \<comment> \<open>\<^verbatim>\<open>t.reshape(-1, k)\<close>: the rows of \<open>k\<close> consecutive elements\<close>
  "reshape_rows t k =
     (if 0 < k \<and> length (elems t) mod k = 0
      then Some (map (\<lambda>r. take k (drop (r * k) (elems t))) [0..<length (elems t) div k])
      else None)"

definition unsqueeze1 :: "tensor \<Rightarrow> tensor option" where
  "unsqueeze1 t = (case shape t of [] \<Rightarrow> None | n # rest \<Rightarrow> Some (t\<lparr>shape := n # 1 # rest\<rparr>))"

definition squeeze1 :: "tensor \<Rightarrow> tensor option" where
  "squeeze1 t =
     (case shape t of
        n # c # rest \<Rightarrow> Some (if c = 1 then t\<lparr>shape := n # rest\<rparr> else t)
      | _ \<Rightarrow> None)"

definition argsort_desc :: "real list \<Rightarrow> nat list" where
  \<comment> \<open>\<^verbatim>\<open>torch.argsort(row, descending=True)\<close>; equal values keep their order\<close>
  "argsort_desc row = map snd (sort_key (\<lambda>p. - fst p) (zip row [0..<length row]))"

definition column :: "nat \<Rightarrow> nat list list \<Rightarrow> nat \<Rightarrow> nat list option" where
  \<comment> \<open>\<^verbatim>\<open>rows[:, i]\<close> of an index tensor with \<open>ncols\<close> columns\<close>
  "column ncols rows i =
     (if i < ncols then those (map (\<lambda>r. if i < length r then Some (r ! i) else None) rows)
      else None)"

definition vmul :: "real list var \<Rightarrow> real list \<Rightarrow> real list var option" where
  "vmul a ws =
     (if length (data a) = length ws
      then Some \<lparr>data = map2 (*) (data a) ws, graph = graph a\<rparr> else None)"

subsection \<open>Losses for the pseudo labels\<close>

definition pseudo_keys :: "string list" where
  "pseudo_keys = [''fine_segm_p'', ''u_p'', ''v_p'']"

definition est_keys :: "string list" where
  "est_keys = [''fine_segm'', ''u'', ''v'']"

definition getattr_packed :: "packed_annotations \<Rightarrow> string \<Rightarrow> tensor option option" where
  "getattr_packed pa key =
     (if key = ''fine_segm_p'' then Some (fine_segm_p pa)
      else if key = ''u_p'' then Some (u_p pa)
      else if key = ''v_p'' then Some (v_p pa)
      else None)"

definition getattr_output :: "predictor_output \<Rightarrow> string \<Rightarrow> tensor var option" where
  "getattr_output out key =
     (if key = ''fine_segm'' then Some (fine_segm out)
      else if key = ''u'' then Some (u out)
      else if key = ''v'' then Some (v out)
      else None)"

text \<open>The variables the loop carries from one key to the next.\<close>

record loop_state =
  losses :: LossDict
  mask :: "bool list option"
  pred_index :: "nat list list option"
  weights :: "real list option"

datatype step = Return LossDict | Continue loop_state

definition pos_index_of ::
  "('p, 'i) collaborators \<Rightarrow> 'p chart_loss \<Rightarrow> packed_annotations \<Rightarrow> bool list option" where
  \<comment> \<open>lines 427 to 437, all under \<^verbatim>\<open>torch.no_grad()\<close>\<close>
  "pos_index_of X L pa = do {
     cs \<leftarrow> unsqueeze1 (coarse_segm_gt pa);
     r \<leftarrow> squeeze1 (resample_data X cs (bbox_xywh_gt pa) (bbox_xywh_est pa)
                      (heatmap_size L) (heatmap_size L) Nearest Zeros);
     Some (map (\<lambda>x. 0 < x) (elems r))
   }"

definition unsup_rows :: "'p chart_loss \<Rightarrow> tensor \<Rightarrow> bool list \<Rightarrow> real list list option" where
  \<comment> \<open>\<^verbatim>\<open>t.permute(0, 2, 3, 1).reshape(-1, self.n_channels)[pos_index]\<close>\<close>
  "unsup_rows L t pos_index = do {
     p \<leftarrow> permute_0231 t;
     rows \<leftarrow> reshape_rows p (n_channels L);
     index_mask rows pos_index
   }"

datatype gate = Fallback | Kept "bool list option" "nat list list" "real list list var"

definition confidence_gate ::
  "'p chart_loss \<Rightarrow> loop_state \<Rightarrow> real list \<Rightarrow> nat list list \<Rightarrow> real list list var \<Rightarrow>
     gate option" where
  \<comment> \<open>lines 460 to 467\<close>
  "confidence_gate L st segm_conf pred est =
     (if pseudo_threshold L < 1
      then (let m = map (\<lambda>c. pseudo_threshold L \<le> c) segm_conf
            in if length (filter id m) \<le> 0 then Some Fallback
               else do {
                 pred' \<leftarrow> index_mask pred m;
                 est' \<leftarrow> vindex_mask est m;
                 segm_conf' \<leftarrow> index_mask segm_conf m;
                 Some (Kept (Some m) pred' est')
               })
      else Some (Kept (mask st) pred est))"

text \<open>
  The branch for \<^verbatim>\<open>fine_segm_p\<close>. Under \<^verbatim>\<open>"sce"\<close> the code always raises once the per-point
  cross-entropy is there: without gating \<^verbatim>\<open>mask\<close> is still \<^verbatim>\<open>None\<close> and
  \<^verbatim>\<open>rce_loss * mask\<close> is a TypeError; with gating \<^verbatim>\<open>mask\<close> is a bool tensor and
  \<^verbatim>\<open>1 - mask\<close> is the RuntimeError torch gives for subtraction with a bool tensor. A
  \<^verbatim>\<open>loss_name\<close> that is neither \<^verbatim>\<open>"sce"\<close> nor \<^verbatim>\<open>"ce"\<close> adds no entry.
\<close>

definition unsup_segm_branch ::
  "'p chart_loss \<Rightarrow> predictor_output \<Rightarrow> loop_state \<Rightarrow> real list list var \<Rightarrow> real list list \<Rightarrow>
     step option" where
  "unsup_segm_branch L out st est pseudo = do {
     segm_conf \<leftarrow> those (map row_max pseudo);
     let pred = map (\<lambda>r. take (uv_loss_channels L) (argsort_desc r)) pseudo;
     g \<leftarrow> confidence_gate L st segm_conf pred est;
     case g of
       Fallback \<Rightarrow> Some (Return (produce_fake_densepose_losses_unsup out))
     | Kept m pred' est' \<Rightarrow> do {
         target \<leftarrow> column (min (uv_loss_channels L) (n_channels L)) pred' 0;
         loss \<leftarrow> cross_entropy_none est' target;
         if loss_name L = ''sce'' then None
         else if loss_name L = ''ce''
         then Some (Continue
                \<lparr>losses = (losses st)(''loss_unsup_segm'' \<mapsto> smul (vmean loss) (w_p_segm L)),
                 mask = m, pred_index = Some pred', weights = weights st\<rparr>)
         else Some (Continue
                \<lparr>losses = losses st, mask = m, pred_index = Some pred', weights = weights st\<rparr>)
       }
   }"

definition gather_topk ::
  "'p chart_loss \<Rightarrow> real list list \<Rightarrow> nat list list \<Rightarrow> real list option" where
  \<comment> \<open>\<^verbatim>\<open>torch.cat([rows[np.arange(n), pred_index[:, i]] for i in range(K)])\<close>; an empty
      list of tensors and a column past the end of \<^verbatim>\<open>pred_index\<close> raise\<close>
  "gather_topk L rows pred =
     (if 0 < uv_loss_channels L \<and> uv_loss_channels L \<le> n_channels L \<and> length rows = length pred
      then map_option concat
             (those (map (\<lambda>i. those (map2 (\<lambda>row pr. if i < length pr \<and> pr ! i < length row
                                                     then Some (row ! (pr ! i)) else None)
                                           rows pred))
                         [0..<uv_loss_channels L]))
      else None)"

text \<open>
  The branch for \<^verbatim>\<open>u_p\<close> and \<^verbatim>\<open>v_p\<close>. In the loop \<^verbatim>\<open>mask\<close> is set whenever the threshold
  is below 1, so the case of a missing mask there cannot arise; it is read as a raise.
\<close>

definition unsup_uv_branch ::
  "'p chart_loss \<Rightarrow> string \<Rightarrow> loop_state \<Rightarrow> real list list var \<Rightarrow> real list list \<Rightarrow>
     step option" where
  "unsup_uv_branch L p_key st est pseudo = do {
     (pseudo', est') \<leftarrow>
        (if pseudo_threshold L < 1
         then (case mask st of
                 None \<Rightarrow> None
               | Some m \<Rightarrow> do {
                   p \<leftarrow> index_mask pseudo m;
                   e \<leftarrow> vindex_mask est m;
                   Some (p, e)
                 })
         else Some (pseudo, est));
     pred \<leftarrow> pred_index st;
     pseudo_g \<leftarrow> gather_topk L pseudo' pred;
     est_g \<leftarrow> gather_topk L (data est') pred;
     loss \<leftarrow> smooth_l1_loss_none \<lparr>data = est_g, graph = graph est'\<rparr> (const pseudo_g);
     if loss_name L = ''sce''
     then do {
       ws \<leftarrow> weights st;
       lw \<leftarrow> vmul loss ws;
       Some (Continue (st\<lparr>losses := (losses st)(''loss_'' @ p_key \<mapsto>
                                         smul (vsum lw) (w_p_points L))\<rparr>))
     }
     else if loss_name L = ''ce''
     then Some (Continue (st\<lparr>losses := (losses st)(''loss_'' @ p_key \<mapsto>
                                         smul (vmean loss) (w_p_points L))\<rparr>))
     else Some (Continue st)
   }"

definition unsup_iteration ::
  "('p, 'i) collaborators \<Rightarrow> 'p chart_loss \<Rightarrow> predictor_output \<Rightarrow> packed_annotations \<Rightarrow>
     bool list \<Rightarrow> string \<times> string \<Rightarrow> loop_state \<Rightarrow> step option" where
  \<comment> \<open>the body of the loop, lines 440 to 500\<close>
  "unsup_iteration X L out pa pos_index ks st = do {
     attr \<leftarrow> getattr_packed pa (fst ks);
     case attr of
       None \<Rightarrow> Some (Return (produce_fake_densepose_losses_unsup out))
     | Some pseudo_t \<Rightarrow> do {
         e \<leftarrow> getattr_output out (snd ks);
         sel \<leftarrow> index_select (data e) (bbox_indices pa);
         est \<leftarrow> unsup_rows L sel pos_index;
         pseudo \<leftarrow> unsup_rows L
                     (resample_data X pseudo_t (bbox_xywh_gt pa) (bbox_xywh_est pa)
                        (heatmap_size L) (heatmap_size L) Nearest Zeros)
                     pos_index;
         if fst ks = ''fine_segm_p''
         then unsup_segm_branch L out st \<lparr>data = est, graph = graph e\<rparr> pseudo
         else unsup_uv_branch L (fst ks) st \<lparr>data = est, graph = graph e\<rparr> pseudo
       }
   }"

fun unsup_loop ::
  "('p, 'i) collaborators \<Rightarrow> 'p chart_loss \<Rightarrow> predictor_output \<Rightarrow> packed_annotations \<Rightarrow>
     bool list \<Rightarrow> (string \<times> string) list \<Rightarrow> loop_state \<Rightarrow> LossDict option" where
  "unsup_loop X L out pa pos_index [] st = Some (losses st)"
| "unsup_loop X L out pa pos_index (ks # rest) st =
     (case unsup_iteration X L out pa pos_index ks st of
        None \<Rightarrow> None
      | Some (Return d) \<Rightarrow> Some d
      | Some (Continue st') \<Rightarrow> unsup_loop X L out pa pos_index rest st')"

definition initial_state :: loop_state where
  \<comment> \<open>the loop variables before the first key, lines 420 to 425\<close>
  "initial_state = \<lparr>losses = Map.empty, mask = None, pred_index = None, weights = None\<rparr>"

definition produce_densepose_losses_unsup ::
  "('p, 'i) collaborators \<Rightarrow> 'p chart_loss \<Rightarrow> 'p list \<Rightarrow> predictor_output \<Rightarrow>
     packed_annotations \<Rightarrow> LossDict option" where
  "produce_densepose_losses_unsup X L proposals_with_gt out pa = do {
     pos_index \<leftarrow> pos_index_of X L pa;
     unsup_loop X L out pa pos_index (zip pseudo_keys est_keys) initial_state
   }"

subsection \<open>The orchestrator\<close>

definition output_size :: "predictor_output \<Rightarrow> (nat \<times> nat) option" where
  \<comment> \<open>\<^verbatim>\<open>h, w = densepose_predictor_outputs.u.shape[2:]\<close>\<close>
  "output_size out = (case drop 2 (shape (data (u out))) of [h, w] \<Rightarrow> Some (h, w) | _ \<Rightarrow> None)"

definition valid_foreground :: "'i interpolator_scheme \<Rightarrow> packed_annotations \<Rightarrow> bool list option" where
  \<comment> \<open>\<^verbatim>\<open>interpolator.j_valid * (packed_annotations.fine_segm_labels_gt > 0)\<close>, both one entry
      per annotated point\<close>
  "valid_foreground itp pa =
     (if length (j_valid itp) = length (fine_segm_labels_gt pa)
      then Some (map2 (\<and>) (j_valid itp) (map (\<lambda>l. 0 < l) (fine_segm_labels_gt pa)))
      else None)"

definition call ::
  "('p, 'i) collaborators \<Rightarrow> 'p chart_loss \<Rightarrow> 'p list \<Rightarrow> predictor_output \<Rightarrow>
     corrector_output option \<Rightarrow> LossDict option" where
  "call X L proposals_with_gt out corrections =
     (if length proposals_with_gt = 0
      then Some (produce_fake_densepose_losses out corrections)
      else case extract_packed_annotations_from_matches X proposals_with_gt of
             None \<Rightarrow> Some (produce_fake_densepose_losses out corrections)
           | Some pa \<Rightarrow> do {
               hw \<leftarrow> output_size out;
               let itp = from_matches X pa hw;
               j_valid_fg \<leftarrow> valid_foreground itp pa;
               if \<not> list_ex id j_valid_fg
               then Some (produce_fake_densepose_losses out corrections)
               else do {
                 losses_uv \<leftarrow> produce_densepose_losses_uv X L proposals_with_gt out pa itp
                                j_valid_fg corrections;
                 losses_segm \<leftarrow> produce_densepose_losses_segm X L proposals_with_gt out pa itp
                                  j_valid_fg corrections;
                 losses_unsup \<leftarrow> produce_densepose_losses_unsup X L proposals_with_gt out pa;
                 Some (losses_uv ++ losses_segm ++ losses_unsup)
               }
             })"

subsection \<open>Concrete inputs\<close>

text \<open>
  One region, one pixel, two fine channels. The stand-ins for the collaborators: a proposal
  carries its packed annotations, every annotated point is valid, the value extracted
  at a point is the one of channel 1 and the row extracted at a point holds all the
  channel values, and resampling between equal boxes returns the map as it is.
\<close>

definition ex_collaborators :: "(packed_annotations option, unit) collaborators" where
  "ex_collaborators =
     \<lparr>MaskOrSegmentationLoss = (\<lambda>c. Some (\<lambda>ps out pa. tsum (coarse_segm out))),
      extract_packed_annotations_from_matches = (\<lambda>ps. case ps of [] \<Rightarrow> None | p # _ \<Rightarrow> p),
      from_matches = (\<lambda>pa hw.
         \<lparr>j_valid = map (\<lambda>_. True) (fine_segm_labels_gt pa),
          w_ylo_xlo = map (\<lambda>_. 1) (fine_segm_labels_gt pa),
          w_ylo_xhi = map (\<lambda>_. 0) (fine_segm_labels_gt pa),
          w_yhi_xlo = map (\<lambda>_. 0) (fine_segm_labels_gt pa),
          w_yhi_xhi = map (\<lambda>_. 0) (fine_segm_labels_gt pa)\<rparr>),
      extract_at_points = (\<lambda>itp t. map (\<lambda>_. elems t ! 1) (j_valid itp)),
      extract_at_points_sliced = (\<lambda>itp t a b c d. map (\<lambda>_. elems t) (j_valid itp)),
      resample_data = (\<lambda>t gt est h w m p. t)\<rparr>"

definition ex_cfg :: cfg where
  "ex_cfg =
     \<lparr>HEATMAP_SIZE = 1, POINT_REGRESSION_WEIGHTS = 2, PART_WEIGHTS = 1, INDEX_WEIGHTS = 1,
      NUM_COARSE_SEGM_CHANNELS = 2, COARSE_SEGM_TRAINED_BY_MASKS = False,
      SEMI_SEGM_WEIGHTS = 1, SEMI_POINTS_WEIGHTS = 1, SEMI_THRESHOLD = 1, NUM_PATCHES = 1,
      SEMI_LOSS_NAME = ''ce'', SEMI_UV_LOSS_CHANNELS = 1,
      SEMI_COR_POINTS_WEIGHTS = 1, SEMI_COR_SEGM_WEIGHTS = 1\<rparr>"

definition ex_cfg_invalid :: cfg where
  \<comment> \<open>a threshold outside [0, 1] and an unknown loss name\<close>
  "ex_cfg_invalid = ex_cfg\<lparr>SEMI_THRESHOLD := 2, SEMI_LOSS_NAME := ''mse''\<rparr>"

definition ex_loss :: "packed_annotations option chart_loss" where
  "ex_loss =
     \<lparr>heatmap_size = 1, w_points = 2, w_part = 1, w_segm = 1, n_segm_chan = 2,
      segm_trained_by_masks = False, segm_loss = (\<lambda>ps out pa. tsum (coarse_segm out)),
      w_p_segm = 1, w_p_points = 1, pseudo_threshold = 1, n_channels = 2,
      loss_name = ''ce'', uv_loss_channels = 1, w_crt_points = 1, w_crt_segm = 1,
      log2pi = ln (2 * pi)\<rparr>"

definition ex_loss_gated :: "packed_annotations option chart_loss" where
  "ex_loss_gated = ex_loss\<lparr>pseudo_threshold := 9 / 10\<rparr>"

definition ex_out :: predictor_output where
  "ex_out =
     \<lparr>coarse_segm = \<lparr>data = \<lparr>shape = [1, 2, 1, 1], elems = [0, 0]\<rparr>, graph = {0}\<rparr>,
      fine_segm = \<lparr>data = \<lparr>shape = [1, 2, 1, 1], elems = [0, 1]\<rparr>, graph = {1}\<rparr>,
      u = \<lparr>data = \<lparr>shape = [1, 2, 1, 1], elems = [1 / 2, 1 / 2]\<rparr>, graph = {2}\<rparr>,
      v = \<lparr>data = \<lparr>shape = [1, 2, 1, 1], elems = [1 / 2, 1 / 2]\<rparr>, graph = {3}\<rparr>\<rparr>"

definition ex_corrections :: corrector_output where
  \<comment> \<open>the correction head has one channel more, the abstain class\<close>
  "ex_corrections =
     \<lparr>crt_u = \<lparr>data = \<lparr>shape = [1, 2, 1, 1], elems = [0, 0]\<rparr>, graph = {4}\<rparr>,
      crt_v = \<lparr>data = \<lparr>shape = [1, 2, 1, 1], elems = [0, 0]\<rparr>, graph = {5}\<rparr>,
      crt_fine_segm = \<lparr>data = \<lparr>shape = [1, 3, 1, 1], elems = [0, 0, 0]\<rparr>, graph = {6}\<rparr>\<rparr>"

definition ex_packed :: packed_annotations where
  \<comment> \<open>two annotated points: one of part 1, one of the background\<close>
  "ex_packed =
     \<lparr>u_gt = [2 / 5, 0], v_gt = [3 / 5, 0], fine_segm_labels_gt = [1, 0],
      coarse_segm_gt = \<lparr>shape = [1, 1, 1], elems = [1]\<rparr>,
      bbox_xywh_gt = \<lparr>shape = [1, 4], elems = [0, 0, 1, 1]\<rparr>,
      bbox_xywh_est = \<lparr>shape = [1, 4], elems = [0, 0, 1, 1]\<rparr>,
      bbox_indices = [0],
      fine_segm_p = Some \<lparr>shape = [1, 2, 1, 1], elems = [3 / 10, 1 / 2]\<rparr>,
      u_p = Some \<lparr>shape = [1, 2, 1, 1], elems = [1, 1]\<rparr>,
      v_p = Some \<lparr>shape = [1, 2, 1, 1], elems = [1, 1]\<rparr>\<rparr>"

definition ex_packed_background :: packed_annotations where
  \<comment> \<open>the only annotated point is a background point\<close>
  "ex_packed_background = ex_packed\<lparr>u_gt := [0], v_gt := [0], fine_segm_labels_gt := [0]\<rparr>"

definition ex_packed_no_foreground_pixel :: packed_annotations where
  \<comment> \<open>the coarse segmentation has no foreground pixel\<close>
  "ex_packed_no_foreground_pixel = ex_packed\<lparr>coarse_segm_gt := \<lparr>shape = [1, 1, 1], elems = [0]\<rparr>\<rparr>"

definition ex_packed_no_u_p :: packed_annotations where
  "ex_packed_no_u_p = ex_packed\<lparr>u_p := None\<rparr>"

subsection \<open>The segmentation losses in the words of the specification\<close>

definition softmax_cross_entropy :: "real list \<Rightarrow> nat \<Rightarrow> real" where
  \<comment> \<open>the standard softmax cross-entropy of a row of scores for the class \<open>t\<close>\<close>
  "softmax_cross_entropy row t = - ln (exp (row ! t) / (\<Sum>x\<leftarrow>row. exp x))"

definition crt_target :: "nat \<Rightarrow> real list \<Rightarrow> nat \<Rightarrow> nat" where
  \<comment> \<open>the abstain class \<open>n\<close> by default, the true label where the base argmax disagrees\<close>
  "crt_target n row gt = (if argmax_row row = Some gt then n else gt)"

definition crt_weight :: "real list \<Rightarrow> nat \<Rightarrow> real" where
  \<comment> \<open>points where the base prediction agreed count twice\<close>
  "crt_weight row gt = (if argmax_row row = Some gt then 2 else 1)"

section \<open>Properties\<close>

subsection \<open>Lists and masks\<close>

lemma those_Some_iff: "those xs = Some ys \<longleftrightarrow> xs = map Some ys"
  by (induction xs arbitrary: ys) (auto split: option.splits)

lemma index_mask_SomeD:
  "index_mask xs m = Some ys \<Longrightarrow> length xs = length m \<and> ys = map fst (filter snd (zip xs m))"
  by (auto simp: index_mask_def split: if_splits)

lemma filter_zip_nth:
  "length xs = length m \<Longrightarrow>
     map fst (filter snd (zip xs m)) = map ((!) xs) (true_positions m)"
proof (induction xs m rule: list_induct2)
  case Nil
  then show ?case by (simp add: true_positions_def)
next
  case (Cons x xs b m)
  have "[0..<Suc (length m)] = 0 # map Suc [0..<length m]"
    unfolding map_Suc_upt by (rule upt_conv_Cons) simp
  then show ?case using Cons
    by (simp only: true_positions_def length_Cons) (simp add: filter_map o_def del: upt_Suc)
qed

lemma index_mask_nth:
  "index_mask xs m = Some ys \<Longrightarrow> ys = map ((!) xs) (true_positions m)"
  by (drule index_mask_SomeD) (simp add: filter_zip_nth)

lemma masked_assign_pointwise:
  "length xs = length m \<Longrightarrow> length m = length ys \<Longrightarrow>
     masked_assign xs m (map fst (filter snd (zip ys m)))
       = Some (map (\<lambda>(x, y, b). if b then y else x) (zip xs (zip ys m)))"
  by (induction xs m ys rule: list_induct3) auto

lemma true_positions_any:
  "list_ex id m \<longleftrightarrow> true_positions m \<noteq> []"
proof -
  have "list_ex id m \<longleftrightarrow> (\<exists>i<length m. m ! i)"
    unfolding list_ex_iff by (metis id_apply in_set_conv_nth)
  also have "\<dots> \<longleftrightarrow> true_positions m \<noteq> []"
    by (auto simp: true_positions_def filter_empty_conv)
  finally show ?thesis .
qed

lemma upt_0_2: "[0..<2] = [0, Suc 0]"
  by (simp add: upt_rec)

subsection \<open>The constructor\<close>

text \<open>
  C9, as stated, does not hold: the constructor checks nothing. For a configuration with
  the threshold 2 and the loss name \<^verbatim>\<open>"mse"\<close> it returns a loss object that holds
  exactly these two values.
\<close>

theorem init_accepts_invalid_configuration:
  "SEMI_THRESHOLD ex_cfg_invalid = 2 \<and> SEMI_LOSS_NAME ex_cfg_invalid = ''mse''
   \<and> map_option pseudo_threshold (init ex_collaborators ex_cfg_invalid) = Some 2
   \<and> map_option loss_name (init ex_collaborators ex_cfg_invalid) = Some ''mse''"
  by (simp add: init_def ex_collaborators_def ex_cfg_invalid_def ex_cfg_def)

text \<open>
  C9, amended: the constructor raises only if the constructor of the segmentation loss
  raises; otherwise it returns the loss object, with the threshold and the loss name of
  the configuration stored as they are.
\<close>

theorem init_stores_configuration_unchecked:
  "(MaskOrSegmentationLoss X c = None \<longrightarrow> init X c = None) \<and>
   (\<forall>sl. MaskOrSegmentationLoss X c = Some sl \<longrightarrow>
      (\<exists>L. init X c = Some L \<and> segm_loss L = sl
            \<and> pseudo_threshold L = SEMI_THRESHOLD c \<and> loss_name L = SEMI_LOSS_NAME c))"
  by (auto simp: init_def)

text \<open>The invalid configuration is stored as it is.\<close>

theorem init_stores_configuration_unchecked_witness:
  "MaskOrSegmentationLoss ex_collaborators ex_cfg_invalid \<noteq> None \<and>
   (\<exists>L. init ex_collaborators ex_cfg_invalid = Some L
         \<and> pseudo_threshold L = 2 \<and> loss_name L = ''mse'')"
  using init_stores_configuration_unchecked [of ex_collaborators ex_cfg_invalid]
  by (auto simp: ex_collaborators_def ex_cfg_invalid_def ex_cfg_def)

subsection \<open>Fake losses and the orchestrator\<close>

lemma fake_value_zero: "data (smul (tsum t) 0) = Finite 0" "graph (smul (tsum t) 0) = graph t"
  by (simp_all add: smul_def tsum_def)

lemma fake_losses_None:
  "produce_fake_densepose_losses out None =
     [''loss_densepose_U'' \<mapsto> smul (tsum (u out)) 0,
      ''loss_densepose_V'' \<mapsto> smul (tsum (v out)) 0,
      ''loss_densepose_I'' \<mapsto> smul (tsum (fine_segm out)) 0,
      ''loss_densepose_S'' \<mapsto> smul (tsum (coarse_segm out)) 0,
      ''loss_unsup_segm'' \<mapsto> smul (tsum (fine_segm out)) 0,
      ''loss_u_p'' \<mapsto> smul (tsum (u out)) 0,
      ''loss_v_p'' \<mapsto> smul (tsum (v out)) 0]"
  by (rule ext)
     (simp add: produce_fake_densepose_losses_def produce_fake_densepose_losses_uv_def
        produce_fake_densepose_losses_segm_def produce_fake_densepose_losses_unsup_def
        segm_loss_fake_value_def map_add_def Let_def)

lemma fake_losses_Some:
  "produce_fake_densepose_losses out (Some c) =
     [''loss_densepose_U'' \<mapsto> smul (tsum (u out)) 0,
      ''loss_densepose_V'' \<mapsto> smul (tsum (v out)) 0,
      ''loss_correction_U'' \<mapsto> smul (tsum (crt_u c)) 0,
      ''loss_correction_V'' \<mapsto> smul (tsum (crt_v c)) 0,
      ''loss_densepose_I'' \<mapsto> smul (tsum (fine_segm out)) 0,
      ''loss_densepose_S'' \<mapsto> smul (tsum (coarse_segm out)) 0,
      ''loss_correction_I'' \<mapsto> smul (tsum (crt_fine_segm c)) 0,
      ''loss_unsup_segm'' \<mapsto> smul (tsum (fine_segm out)) 0,
      ''loss_u_p'' \<mapsto> smul (tsum (u out)) 0,
      ''loss_v_p'' \<mapsto> smul (tsum (v out)) 0]"
  by (rule ext)
     (simp add: produce_fake_densepose_losses_def produce_fake_densepose_losses_uv_def
        produce_fake_densepose_losses_segm_def produce_fake_densepose_losses_unsup_def
        segm_loss_fake_value_def map_add_def Let_def)

lemma fake_losses_zero:
  "produce_fake_densepose_losses out corrections k = Some s \<Longrightarrow> data s = Finite 0"
  by (cases corrections)
     (auto simp: fake_losses_None fake_losses_Some fake_value_zero split: if_splits)

lemma valid_foreground_any:
  assumes "length (j_valid itp) = length (fine_segm_labels_gt pa)"
  shows "\<exists>fg. valid_foreground itp pa = Some fg \<and>
           (list_ex id fg \<longleftrightarrow> (\<exists>i<length (fine_segm_labels_gt pa).
                                   j_valid itp ! i \<and> 0 < fine_segm_labels_gt pa ! i))"
proof -
  let ?fg = "map2 (\<and>) (j_valid itp) (map (\<lambda>l. 0 < l) (fine_segm_labels_gt pa))"
  have len: "length ?fg = length (fine_segm_labels_gt pa)" using assms by simp
  have "list_ex id ?fg \<longleftrightarrow> (\<exists>i<length ?fg. ?fg ! i)"
    unfolding list_ex_iff by (metis id_apply in_set_conv_nth)
  also have "\<dots> \<longleftrightarrow> (\<exists>i<length (fine_segm_labels_gt pa).
                     j_valid itp ! i \<and> 0 < fine_segm_labels_gt pa ! i)"
    using assms by (auto simp: len)
  finally show ?thesis using assms by (simp add: valid_foreground_def)
qed

text \<open>
  C1: if the list of proposals is empty, or packing the annotations gives \<^verbatim>\<open>None\<close>, or no
  annotated point is both valid for the interpolator and labelled with a part
  (\<^verbatim>\<open>fine_segm_labels_gt > 0\<close>), the orchestrator returns exactly the map of fake losses
  of all branches, every value of which is zero. The map is a function of the predictor
  outputs and the corrections alone: no point-level loss enters it.
\<close>

theorem call_fake_without_supervision:
  assumes "proposals_with_gt = []
     \<or> extract_packed_annotations_from_matches X proposals_with_gt = None
     \<or> (\<exists>pa hw. extract_packed_annotations_from_matches X proposals_with_gt = Some pa
           \<and> output_size out = Some hw
           \<and> length (j_valid (from_matches X pa hw)) = length (fine_segm_labels_gt pa)
           \<and> (\<forall>i<length (fine_segm_labels_gt pa).
                 \<not> (j_valid (from_matches X pa hw) ! i \<and> 0 < fine_segm_labels_gt pa ! i)))"
  shows "call X L proposals_with_gt out corrections
           = Some (produce_fake_densepose_losses out corrections)
         \<and> (\<forall>k s. produce_fake_densepose_losses out corrections k = Some s
                \<longrightarrow> data s = Finite 0)"
proof -
  have "call X L proposals_with_gt out corrections
          = Some (produce_fake_densepose_losses out corrections)"
    using assms
  proof (elim disjE exE conjE)
    assume "proposals_with_gt = []"
    then show ?thesis by (simp add: call_def)
  next
    assume "extract_packed_annotations_from_matches X proposals_with_gt = None"
    then show ?thesis by (simp add: call_def)
  next
    fix pa hw
    assume pk: "extract_packed_annotations_from_matches X proposals_with_gt = Some pa"
      and hw: "output_size out = Some hw"
      and len: "length (j_valid (from_matches X pa hw)) = length (fine_segm_labels_gt pa)"
      and none: "\<forall>i<length (fine_segm_labels_gt pa).
                   \<not> (j_valid (from_matches X pa hw) ! i \<and> 0 < fine_segm_labels_gt pa ! i)"
    from valid_foreground_any [OF len] none
    obtain fg where "valid_foreground (from_matches X pa hw) pa = Some fg" "\<not> list_ex id fg"
      by blast
    with pk hw show ?thesis by (simp add: call_def)
  qed
  then show ?thesis using fake_losses_zero by blast
qed


text \<open>A batch whose only annotated point is a background point.\<close>

theorem call_fake_without_supervision_witness:
  "extract_packed_annotations_from_matches ex_collaborators [Some ex_packed_background]
     = Some ex_packed_background
   \<and> fine_segm_labels_gt ex_packed_background = [0]
   \<and> call ex_collaborators ex_loss [Some ex_packed_background] ex_out (Some ex_corrections)
       = Some (produce_fake_densepose_losses ex_out (Some ex_corrections))"
  using call_fake_without_supervision
          [of "[Some ex_packed_background]" ex_collaborators ex_out ex_loss "Some ex_corrections"]
  by (simp add: ex_collaborators_def ex_packed_background_def ex_packed_def ex_out_def
        output_size_def)

subsection \<open>Key sets\<close>

lemma uv_dom:
  "produce_densepose_losses_uv X L ps out pa itp fg corrections = Some m \<Longrightarrow>
     dom m = {''loss_densepose_U'', ''loss_densepose_V''} \<union>
             (case corrections of None \<Rightarrow> {}
              | Some c \<Rightarrow> {''loss_correction_U'', ''loss_correction_V''})"
  by (cases corrections)
     (auto simp: produce_densepose_losses_uv_def bind_eq_Some_conv Let_def split: if_splits)

lemma segm_dom:
  "produce_densepose_losses_segm X L ps out pa itp fg corrections = Some m \<Longrightarrow>
     dom m = {''loss_densepose_I'', ''loss_densepose_S''} \<union>
             (case corrections of None \<Rightarrow> {} | Some c \<Rightarrow> {''loss_correction_I''})"
  by (cases corrections)
     (auto simp: produce_densepose_losses_segm_def bind_eq_Some_conv Let_def split: if_splits)

lemma segm_branch_SomeD:
  assumes "unsup_segm_branch L out st est pseudo = Some r"
  obtains conf g where "those (map row_max pseudo) = Some conf"
    and "confidence_gate L st conf
           (map (\<lambda>r. take (uv_loss_channels L) (argsort_desc r)) pseudo) est = Some g"
    and "(case g of
            Fallback \<Rightarrow> Some (Return (produce_fake_densepose_losses_unsup out))
          | Kept m pred' est' \<Rightarrow> do {
              target \<leftarrow> column (min (uv_loss_channels L) (n_channels L)) pred' 0;
              loss \<leftarrow> cross_entropy_none est' target;
              if loss_name L = ''sce'' then None
              else if loss_name L = ''ce''
              then Some (Continue
                     \<lparr>losses = (losses st)(''loss_unsup_segm'' \<mapsto>
                                   smul (vmean loss) (w_p_segm L)),
                      mask = m, pred_index = Some pred', weights = weights st\<rparr>)
              else Some (Continue
                     \<lparr>losses = losses st, mask = m, pred_index = Some pred',
                      weights = weights st\<rparr>)
            }) = Some r"
  using assms by (auto simp: unsup_segm_branch_def bind_eq_Some_conv Let_def)

lemma segm_branch_Return:
  assumes "unsup_segm_branch L out st est pseudo = Some (Return d)"
  shows "d = produce_fake_densepose_losses_unsup out"
proof -
  from assms obtain conf g where
    r: "(case g of
            Fallback \<Rightarrow> Some (Return (produce_fake_densepose_losses_unsup out))
          | Kept m pred' est' \<Rightarrow> do {
              target \<leftarrow> column (min (uv_loss_channels L) (n_channels L)) pred' 0;
              loss \<leftarrow> cross_entropy_none est' target;
              if loss_name L = ''sce'' then None
              else if loss_name L = ''ce''
              then Some (Continue
                     \<lparr>losses = (losses st)(''loss_unsup_segm'' \<mapsto>
                                   smul (vmean loss) (w_p_segm L)),
                      mask = m, pred_index = Some pred', weights = weights st\<rparr>)
              else Some (Continue
                     \<lparr>losses = losses st, mask = m, pred_index = Some pred',
                      weights = weights st\<rparr>)
            }) = Some (Return d)"
    by (rule segm_branch_SomeD)
  then show ?thesis
    by (cases g) (auto simp: bind_eq_Some_conv split: if_splits)
qed

lemma segm_branch_Continue:
  assumes "unsup_segm_branch L out st est pseudo = Some (Continue st')"
  shows "loss_name L \<noteq> ''sce'' \<and>
     (loss_name L = ''ce'' \<longrightarrow> (\<exists>s. losses st' = (losses st)(''loss_unsup_segm'' \<mapsto> s))) \<and>
     (loss_name L \<noteq> ''ce'' \<longrightarrow> losses st' = losses st)"
proof -
  from assms obtain conf g where
    r: "(case g of
            Fallback \<Rightarrow> Some (Return (produce_fake_densepose_losses_unsup out))
          | Kept m pred' est' \<Rightarrow> do {
              target \<leftarrow> column (min (uv_loss_channels L) (n_channels L)) pred' 0;
              loss \<leftarrow> cross_entropy_none est' target;
              if loss_name L = ''sce'' then None
              else if loss_name L = ''ce''
              then Some (Continue
                     \<lparr>losses = (losses st)(''loss_unsup_segm'' \<mapsto>
                                   smul (vmean loss) (w_p_segm L)),
                      mask = m, pred_index = Some pred', weights = weights st\<rparr>)
              else Some (Continue
                     \<lparr>losses = losses st, mask = m, pred_index = Some pred',
                      weights = weights st\<rparr>)
            }) = Some (Continue st')"
    by (rule segm_branch_SomeD)
  then show ?thesis
    by (cases g) (auto simp: bind_eq_Some_conv split: if_splits)
qed

lemma uv_branch_Return:
  "unsup_uv_branch L p_key st est pseudo = Some (Return d) \<Longrightarrow> False"
  by (auto simp: unsup_uv_branch_def bind_eq_Some_conv Let_def split: if_splits)

lemma uv_branch_Continue:
  assumes "unsup_uv_branch L p_key st est pseudo = Some (Continue st')"
    and "loss_name L = ''ce'' \<or> loss_name L = ''sce''"
  shows "\<exists>s. st' = st\<lparr>losses := (losses st)(''loss_'' @ p_key \<mapsto> s)\<rparr>"
  using assms
  by (fastforce simp: unsup_uv_branch_def bind_eq_Some_conv Let_def split: if_splits)

lemma uv_branch_Continue_other:
  assumes "unsup_uv_branch L p_key st est pseudo = Some (Continue st')"
    and "loss_name L \<noteq> ''ce''" "loss_name L \<noteq> ''sce''"
  shows "st' = st"
  using assms
  by (auto simp: unsup_uv_branch_def bind_eq_Some_conv Let_def split: if_splits)


lemma iteration_Return:
  assumes "unsup_iteration X L out pa pos ks st = Some (Return d)"
  shows "d = produce_fake_densepose_losses_unsup out"
proof (cases "getattr_packed pa (fst ks)")
  case None
  with assms show ?thesis by (simp add: unsup_iteration_def)
next
  case (Some attr)
  show ?thesis
  proof (cases attr)
    case None
    with Some assms show ?thesis by (simp add: unsup_iteration_def)
  next
    case (Some t)
    with \<open>getattr_packed pa (fst ks) = Some attr\<close> assms show ?thesis
      by (auto simp: unsup_iteration_def bind_eq_Some_conv split: if_splits
               dest: segm_branch_Return uv_branch_Return)
  qed
qed

lemma iteration_Continue:
  assumes "unsup_iteration X L out pa pos ks st = Some (Continue st')"
  shows "\<exists>t est pseudo. getattr_packed pa (fst ks) = Some (Some t)
           \<and> (if fst ks = ''fine_segm_p''
               then unsup_segm_branch L out st est pseudo
               else unsup_uv_branch L (fst ks) st est pseudo) = Some (Continue st')"
proof (cases "getattr_packed pa (fst ks)")
  case None
  with assms show ?thesis by (simp add: unsup_iteration_def)
next
  case (Some attr)
  show ?thesis
  proof (cases attr)
    case None
    with Some assms show ?thesis by (simp add: unsup_iteration_def)
  next
    case (Some t)
    with \<open>getattr_packed pa (fst ks) = Some attr\<close> assms
    obtain est pseudo where
      "(if fst ks = ''fine_segm_p''
        then unsup_segm_branch L out st est pseudo
        else unsup_uv_branch L (fst ks) st est pseudo) = Some (Continue st')"
      by (auto simp: unsup_iteration_def bind_eq_Some_conv)
    with Some \<open>getattr_packed pa (fst ks) = Some attr\<close> show ?thesis by blast
  qed
qed

lemma loop_Cons_cases:
  assumes "unsup_loop X L out pa pos (ks # rest) st = Some m"
  shows "unsup_iteration X L out pa pos ks st = Some (Return m) \<or>
         (\<exists>st'. unsup_iteration X L out pa pos ks st = Some (Continue st')
                \<and> unsup_loop X L out pa pos rest st' = Some m)"
proof (cases "unsup_iteration X L out pa pos ks st")
  case None
  with assms show ?thesis by simp
next
  case (Some r)
  with assms show ?thesis by (cases r) simp_all
qed

lemma unsup_cases:
  assumes "produce_densepose_losses_unsup X L ps out pa = Some m"
  shows "m = produce_fake_densepose_losses_unsup out \<or>
         (\<exists>pos st1 st2 st3. pos_index_of X L pa = Some pos
            \<and> unsup_iteration X L out pa pos (''fine_segm_p'', ''fine_segm'') initial_state
                = Some (Continue st1)
            \<and> unsup_iteration X L out pa pos (''u_p'', ''u'') st1 = Some (Continue st2)
            \<and> unsup_iteration X L out pa pos (''v_p'', ''v'') st2 = Some (Continue st3)
            \<and> m = losses st3)"
proof -
  from assms obtain pos where pos: "pos_index_of X L pa = Some pos"
    and loop: "unsup_loop X L out pa pos
                 [(''fine_segm_p'', ''fine_segm''), (''u_p'', ''u''), (''v_p'', ''v'')]
                 initial_state = Some m"
    by (auto simp: produce_densepose_losses_unsup_def bind_eq_Some_conv pseudo_keys_def
          est_keys_def)
  from loop_Cons_cases [OF loop] show ?thesis
  proof (elim disjE exE conjE)
    assume "unsup_iteration X L out pa pos (''fine_segm_p'', ''fine_segm'') initial_state
              = Some (Return m)"
    then show ?thesis by (auto dest: iteration_Return)
  next
    fix st1
    assume i1: "unsup_iteration X L out pa pos (''fine_segm_p'', ''fine_segm'') initial_state
                  = Some (Continue st1)"
      and l1: "unsup_loop X L out pa pos [(''u_p'', ''u''), (''v_p'', ''v'')] st1 = Some m"
    from loop_Cons_cases [OF l1] show ?thesis
    proof (elim disjE exE conjE)
      assume "unsup_iteration X L out pa pos (''u_p'', ''u'') st1 = Some (Return m)"
      then show ?thesis by (auto dest: iteration_Return)
    next
      fix st2
      assume i2: "unsup_iteration X L out pa pos (''u_p'', ''u'') st1 = Some (Continue st2)"
        and l2: "unsup_loop X L out pa pos [(''v_p'', ''v'')] st2 = Some m"
      from loop_Cons_cases [OF l2] show ?thesis
      proof (elim disjE exE conjE)
        assume "unsup_iteration X L out pa pos (''v_p'', ''v'') st2 = Some (Return m)"
        then show ?thesis by (auto dest: iteration_Return)
      next
        fix st3
        assume i3: "unsup_iteration X L out pa pos (''v_p'', ''v'') st2 = Some (Continue st3)"
          and "unsup_loop X L out pa pos [] st3 = Some m"
        with pos i1 i2 show ?thesis by auto
      qed
    qed
  qed
qed

lemma unsup_dom:
  assumes "produce_densepose_losses_unsup X L ps out pa = Some m"
    and "loss_name L = ''ce'' \<or> loss_name L = ''sce''"
  shows "dom m = {''loss_unsup_segm'', ''loss_u_p'', ''loss_v_p''}"
  using unsup_cases [OF assms(1)]
proof (elim disjE exE conjE)
  assume "m = produce_fake_densepose_losses_unsup out"
  then show ?thesis by (auto simp: produce_fake_densepose_losses_unsup_def split: if_splits)
next
  fix pos st1 st2 st3
  assume i1: "unsup_iteration X L out pa pos (''fine_segm_p'', ''fine_segm'') initial_state
                = Some (Continue st1)"
    and i2: "unsup_iteration X L out pa pos (''u_p'', ''u'') st1 = Some (Continue st2)"
    and i3: "unsup_iteration X L out pa pos (''v_p'', ''v'') st2 = Some (Continue st3)"
    and m: "m = losses st3"
  from iteration_Continue [OF i1] obtain est pseudo where
    "unsup_segm_branch L out initial_state est pseudo = Some (Continue st1)" by auto
  from segm_branch_Continue [OF this] assms(2)
  obtain s1 where s1: "losses st1 = [''loss_unsup_segm'' \<mapsto> s1]"
    by (auto simp: initial_state_def)
  from iteration_Continue [OF i2] obtain est2 pseudo2 where
    "unsup_uv_branch L ''u_p'' st1 est2 pseudo2 = Some (Continue st2)" by auto
  from uv_branch_Continue [OF this assms(2)]
  obtain s2 where s2: "losses st2 = (losses st1)(''loss_u_p'' \<mapsto> s2)" by auto
  from iteration_Continue [OF i3] obtain est3 pseudo3 where
    "unsup_uv_branch L ''v_p'' st2 est3 pseudo3 = Some (Continue st3)" by auto
  from uv_branch_Continue [OF this assms(2)]
  obtain s3 where s3: "losses st3 = (losses st2)(''loss_v_p'' \<mapsto> s3)" by auto
  show ?thesis unfolding m s3 s2 s1 by auto
qed


lemma fake_dom:
  "dom (produce_fake_densepose_losses out corrections) =
     {''loss_densepose_U'', ''loss_densepose_V'', ''loss_densepose_I'', ''loss_densepose_S'',
      ''loss_unsup_segm'', ''loss_u_p'', ''loss_v_p''} \<union>
     (case corrections of None \<Rightarrow> {}
      | Some c \<Rightarrow> {''loss_correction_U'', ''loss_correction_V'', ''loss_correction_I''})"
  by (cases corrections) (auto simp: fake_losses_None fake_losses_Some split: if_splits)

lemma call_dom:
  assumes "call X L ps out corrections = Some m"
    and "loss_name L = ''ce'' \<or> loss_name L = ''sce''"
  shows "dom m = dom (produce_fake_densepose_losses out corrections)"
proof (cases "call X L ps out corrections = Some (produce_fake_densepose_losses out corrections)")
  case True
  with assms show ?thesis by simp
next
  case False
  with assms(1) obtain pa itp fg m1 m2 m3 where
    uv: "produce_densepose_losses_uv X L ps out pa itp fg corrections = Some m1"
    and segm: "produce_densepose_losses_segm X L ps out pa itp fg corrections = Some m2"
    and unsup: "produce_densepose_losses_unsup X L ps out pa = Some m3"
    and m: "m = m1 ++ m2 ++ m3"
    by (auto simp: call_def bind_eq_Some_conv Let_def split: if_splits option.splits)
  show ?thesis
    unfolding m dom_map_add uv_dom [OF uv] segm_dom [OF segm] unsup_dom [OF unsup assms(2)]
      fake_dom
    by (cases corrections) auto
qed

subsection \<open>The example, evaluated\<close>

lemma ex_itp: "from_matches ex_collaborators ex_packed hw =
   \<lparr>j_valid = [True, True], w_ylo_xlo = [1, 1], w_ylo_xhi = [0, 0], w_yhi_xlo = [0, 0], w_yhi_xhi = [0, 0]\<rparr>"
  by (simp add: ex_collaborators_def ex_packed_def)

lemma ex_fg: "valid_foreground (from_matches ex_collaborators ex_packed hw) ex_packed = Some [True, False]"
  by (simp add: ex_itp valid_foreground_def) (simp add: ex_packed_def)

lemma ex_uv:
  "produce_densepose_losses_uv ex_collaborators ex_loss ps ex_out ex_packed
      (from_matches ex_collaborators ex_packed hw) [True, False] (Some ex_corrections)
   = Some [''loss_densepose_U'' \<mapsto> \<lparr>data = Finite (1 / 100), graph = {2}\<rparr>,
           ''loss_densepose_V'' \<mapsto> \<lparr>data = Finite (1 / 100), graph = {3}\<rparr>,
           ''loss_correction_U'' \<mapsto> \<lparr>data = Finite (1 / 200), graph = {4}\<rparr>,
           ''loss_correction_V'' \<mapsto> \<lparr>data = Finite (1 / 200), graph = {5}\<rparr>]"
  unfolding ex_itp
  by (simp add: produce_densepose_losses_uv_def vindex_mask_def index_mask_def
        vextract_at_points_def const_def smooth_l1_loss_sum_def smooth_l1_loss_none_def
        smooth_l1_def vsum_def smul_def vsub_def vclamp_def clamp_def detach_def
        ex_collaborators_def ex_loss_def ex_out_def ex_packed_def ex_corrections_def
        power2_eq_square)

lemma ex_segm:
  "produce_densepose_losses_segm ex_collaborators ex_loss ps ex_out ex_packed
      (from_matches ex_collaborators ex_packed hw) [True, False] (Some ex_corrections) \<noteq> None"
  unfolding ex_itp
  by (simp add: produce_densepose_losses_segm_def vindex_mask_def index_mask_def
        vextract_at_points_sliced_def cross_entropy_def cross_entropy_none_def ce_row_def
        argmax_dim1_def argmax_row_def ne_elementwise_def
        ex_collaborators_def ex_loss_def ex_out_def ex_packed_def ex_corrections_def)

lemma ex_pos: "pos_index_of ex_collaborators ex_loss ex_packed = Some [True]"
  by (simp add: pos_index_of_def ex_collaborators_def ex_loss_def ex_packed_def
        unsqueeze1_def squeeze1_def)

lemma ex_unsup:
  "produce_densepose_losses_unsup ex_collaborators ex_loss ps ex_out ex_packed =
     Some [''loss_unsup_segm'' \<mapsto> \<lparr>data = Finite (ln (1 + exp 1) - 1), graph = {1}\<rparr>,
           ''loss_u_p'' \<mapsto> \<lparr>data = Finite (1 / 8), graph = {2}\<rparr>,
           ''loss_v_p'' \<mapsto> \<lparr>data = Finite (1 / 8), graph = {3}\<rparr>]"
  apply (simp add: produce_densepose_losses_unsup_def ex_pos pseudo_keys_def est_keys_def
      initial_state_def)
  apply (simp add: unsup_iteration_def getattr_packed_def getattr_output_def
     ex_collaborators_def ex_loss_def ex_packed_def ex_out_def
     index_select_def unsup_rows_def permute_0231_def reshape_rows_def index_mask_def
     unsup_segm_branch_def unsup_uv_branch_def confidence_gate_def argsort_desc_def column_def
     cross_entropy_none_def ce_row_def gather_topk_def smooth_l1_loss_none_def smooth_l1_def
     smul_def vmean_def const_def vindex_mask_def power2_eq_square upt_0_2)
  done


lemma ex_call_Some:
  "\<exists>m. call ex_collaborators ex_loss [Some ex_packed] ex_out (Some ex_corrections) = Some m"
proof -
  have pk: "extract_packed_annotations_from_matches ex_collaborators [Some ex_packed]
              = Some ex_packed"
    by (simp add: ex_collaborators_def)
  have sz: "output_size ex_out = Some (1, 1)"
    by (simp add: output_size_def ex_out_def)
  obtain m2 where m2: "produce_densepose_losses_segm ex_collaborators ex_loss [Some ex_packed]
      ex_out ex_packed (from_matches ex_collaborators ex_packed (Suc 0, Suc 0)) [True, False]
      (Some ex_corrections) = Some m2"
    using ex_segm by blast
  show ?thesis
    by (simp add: call_def pk sz ex_fg ex_uv m2 ex_unsup)
qed

text \<open>
  C2: every fake loss is the sum of the corresponding output tensor times zero: its value
  is zero and its graph is the graph of that tensor, so it differs from the constant zero
  whenever the tensor is part of a graph. The keys of the fake map are the seven base
  keys and, exactly when corrections are present, the three correction keys; a map
  returned by the orchestrator on any path under the loss names \<^verbatim>\<open>"ce"\<close> and \<^verbatim>\<open>"sce"\<close>
  has the same keys.
\<close>

theorem fake_losses_sum_times_zero_same_keys:
  "produce_fake_densepose_losses out None =
     [''loss_densepose_U'' \<mapsto> smul (tsum (u out)) 0,
      ''loss_densepose_V'' \<mapsto> smul (tsum (v out)) 0,
      ''loss_densepose_I'' \<mapsto> smul (tsum (fine_segm out)) 0,
      ''loss_densepose_S'' \<mapsto> smul (tsum (coarse_segm out)) 0,
      ''loss_unsup_segm'' \<mapsto> smul (tsum (fine_segm out)) 0,
      ''loss_u_p'' \<mapsto> smul (tsum (u out)) 0,
      ''loss_v_p'' \<mapsto> smul (tsum (v out)) 0]
   \<and> produce_fake_densepose_losses out (Some c) =
     [''loss_densepose_U'' \<mapsto> smul (tsum (u out)) 0,
      ''loss_densepose_V'' \<mapsto> smul (tsum (v out)) 0,
      ''loss_correction_U'' \<mapsto> smul (tsum (crt_u c)) 0,
      ''loss_correction_V'' \<mapsto> smul (tsum (crt_v c)) 0,
      ''loss_densepose_I'' \<mapsto> smul (tsum (fine_segm out)) 0,
      ''loss_densepose_S'' \<mapsto> smul (tsum (coarse_segm out)) 0,
      ''loss_correction_I'' \<mapsto> smul (tsum (crt_fine_segm c)) 0,
      ''loss_unsup_segm'' \<mapsto> smul (tsum (fine_segm out)) 0,
      ''loss_u_p'' \<mapsto> smul (tsum (u out)) 0,
      ''loss_v_p'' \<mapsto> smul (tsum (v out)) 0]
   \<and> data (smul (tsum t) 0) = Finite 0
   \<and> graph (smul (tsum t) 0) = graph t
   \<and> (graph t \<noteq> {} \<longrightarrow> smul (tsum t) 0 \<noteq> const (Finite 0))
   \<and> dom (produce_fake_densepose_losses out corrections) =
       {''loss_densepose_U'', ''loss_densepose_V'', ''loss_densepose_I'', ''loss_densepose_S'',
        ''loss_unsup_segm'', ''loss_u_p'', ''loss_v_p''} \<union>
       (case corrections of None \<Rightarrow> {}
        | Some c' \<Rightarrow> {''loss_correction_U'', ''loss_correction_V'', ''loss_correction_I''})
   \<and> (call X L ps out corrections = Some m \<and> (loss_name L = ''ce'' \<or> loss_name L = ''sce'')
        \<longrightarrow> dom m = dom (produce_fake_densepose_losses out corrections))"
proof (intro conjI impI)
  show "produce_fake_densepose_losses out None =
     [''loss_densepose_U'' \<mapsto> smul (tsum (u out)) 0,
      ''loss_densepose_V'' \<mapsto> smul (tsum (v out)) 0,
      ''loss_densepose_I'' \<mapsto> smul (tsum (fine_segm out)) 0,
      ''loss_densepose_S'' \<mapsto> smul (tsum (coarse_segm out)) 0,
      ''loss_unsup_segm'' \<mapsto> smul (tsum (fine_segm out)) 0,
      ''loss_u_p'' \<mapsto> smul (tsum (u out)) 0,
      ''loss_v_p'' \<mapsto> smul (tsum (v out)) 0]"
    by (rule fake_losses_None)
  show "produce_fake_densepose_losses out (Some c) =
     [''loss_densepose_U'' \<mapsto> smul (tsum (u out)) 0,
      ''loss_densepose_V'' \<mapsto> smul (tsum (v out)) 0,
      ''loss_correction_U'' \<mapsto> smul (tsum (crt_u c)) 0,
      ''loss_correction_V'' \<mapsto> smul (tsum (crt_v c)) 0,
      ''loss_densepose_I'' \<mapsto> smul (tsum (fine_segm out)) 0,
      ''loss_densepose_S'' \<mapsto> smul (tsum (coarse_segm out)) 0,
      ''loss_correction_I'' \<mapsto> smul (tsum (crt_fine_segm c)) 0,
      ''loss_unsup_segm'' \<mapsto> smul (tsum (fine_segm out)) 0,
      ''loss_u_p'' \<mapsto> smul (tsum (u out)) 0,
      ''loss_v_p'' \<mapsto> smul (tsum (v out)) 0]"
    by (rule fake_losses_Some)
  show "data (smul (tsum t) 0) = Finite 0" by (rule fake_value_zero)
  show "graph (smul (tsum t) 0) = graph t" by (rule fake_value_zero)
  show "smul (tsum t) 0 \<noteq> const (Finite 0)" if "graph t \<noteq> {}"
    using that by (auto simp: smul_def tsum_def const_def)
  show "dom (produce_fake_densepose_losses out corrections) =
       {''loss_densepose_U'', ''loss_densepose_V'', ''loss_densepose_I'', ''loss_densepose_S'',
        ''loss_unsup_segm'', ''loss_u_p'', ''loss_v_p''} \<union>
       (case corrections of None \<Rightarrow> {}
        | Some c' \<Rightarrow> {''loss_correction_U'', ''loss_correction_V'', ''loss_correction_I''})"
    by (rule fake_dom)
  show "dom m = dom (produce_fake_densepose_losses out corrections)"
    if "call X L ps out corrections = Some m \<and> (loss_name L = ''ce'' \<or> loss_name L = ''sce'')"
    using that call_dom by blast
qed

text \<open>The real path of the example returns the ten keys of the fake map.\<close>

theorem fake_losses_sum_times_zero_same_keys_witness:
  "graph (u ex_out) \<noteq> {} \<and> loss_name ex_loss = ''ce''
   \<and> smul (tsum (u ex_out)) 0 \<noteq> const (Finite 0)
   \<and> produce_fake_densepose_losses ex_out None ''loss_densepose_U''
        = Some \<lparr>data = Finite 0, graph = {2}\<rparr>
   \<and> call ex_collaborators ex_loss [Some ex_packed] ex_out (Some ex_corrections) \<noteq> None
   \<and> dom (the (call ex_collaborators ex_loss [Some ex_packed] ex_out (Some ex_corrections)))
       = {''loss_densepose_U'', ''loss_densepose_V'', ''loss_densepose_I'', ''loss_densepose_S'',
          ''loss_unsup_segm'', ''loss_u_p'', ''loss_v_p'',
          ''loss_correction_U'', ''loss_correction_V'', ''loss_correction_I''}"
proof -
  obtain m where m: "call ex_collaborators ex_loss [Some ex_packed] ex_out (Some ex_corrections)
                       = Some m"
    using ex_call_Some by blast
  have g: "graph (u ex_out) = {2}" by (simp add: ex_out_def)
  have n: "loss_name ex_loss = ''ce''" by (simp add: ex_loss_def)
  note T = fake_losses_sum_times_zero_same_keys
             [of ex_out ex_corrections "u ex_out" "Some ex_corrections" ex_collaborators ex_loss
                 "[Some ex_packed]" m]
  note T1 = T [THEN conjunct1]
  note R1 = T [THEN conjunct2]
  note R2 = R1 [THEN conjunct2]
  note T3 = R2 [THEN conjunct1]
  note R3 = R2 [THEN conjunct2]
  note T4 = R3 [THEN conjunct1]
  note R4 = R3 [THEN conjunct2]
  note T5 = R4 [THEN conjunct1]
  note R5 = R4 [THEN conjunct2]
  note T6 = R5 [THEN conjunct1]
  note T7 = R5 [THEN conjunct2]
  from T5 g have a: "smul (tsum (u ex_out)) 0 \<noteq> const (Finite 0)" by simp
  from T3 T4 g have z: "smul (tsum (u ex_out)) 0 = \<lparr>data = Finite 0, graph = {2}\<rparr>"
    by (cases "smul (tsum (u ex_out)) 0") simp
  have b: "produce_fake_densepose_losses ex_out None ''loss_densepose_U''
             = Some \<lparr>data = Finite 0, graph = {2}\<rparr>"
    unfolding T1 using z by simp
  from T7 m n have "dom m = dom (produce_fake_densepose_losses ex_out (Some ex_corrections))"
    by simp
  with T6 have d: "dom m =
       {''loss_densepose_U'', ''loss_densepose_V'', ''loss_densepose_I'', ''loss_densepose_S'',
        ''loss_unsup_segm'', ''loss_u_p'', ''loss_v_p'',
        ''loss_correction_U'', ''loss_correction_V'', ''loss_correction_I''}"
    by auto
  from g n a b m d show ?thesis by simp
qed

subsection \<open>Regression losses at the annotated points\<close>

lemma map2_map_same:
  "map2 f (map g xs) (map h xs) = map (\<lambda>x. f (g x) (h x)) xs"
  by (induction xs) simp_all

lemma vindex_mask_nth:
  "vindex_mask xs m = Some ys \<Longrightarrow>
     ys = \<lparr>data = map ((!) (data xs)) (true_positions m), graph = graph xs\<rparr>"
  by (auto simp: vindex_mask_def dest: index_mask_nth)

lemma smooth_l1_loss_sum_nth:
  "smooth_l1_loss_sum \<lparr>data = map f ps, graph = g\<rparr> \<lparr>data = map h ps, graph = g'\<rparr>
     = Some \<lparr>data = Finite (\<Sum>i\<leftarrow>ps. smooth_l1 (f i) (h i)), graph = g \<union> g'\<rparr>"
  by (simp add: smooth_l1_loss_sum_def smooth_l1_loss_none_def vsum_def map2_map_same)

lemma uv_SomeD:
  assumes "produce_densepose_losses_uv X L ps out pa itp fg corrections = Some m"
  shows "\<exists>m'. m = [''loss_densepose_U'' \<mapsto>
                 \<lparr>data = Finite ((\<Sum>i\<leftarrow>true_positions fg.
                                     smooth_l1 (extract_at_points X itp (data (u out)) ! i)
                                               (u_gt pa ! i)) * w_points L),
                  graph = graph (u out)\<rparr>,
               ''loss_densepose_V'' \<mapsto>
                 \<lparr>data = Finite ((\<Sum>i\<leftarrow>true_positions fg.
                                     smooth_l1 (extract_at_points X itp (data (v out)) ! i)
                                               (v_gt pa ! i)) * w_points L),
                  graph = graph (v out)\<rparr>] ++ m'
            \<and> dom m' \<subseteq> {''loss_correction_U'', ''loss_correction_V''}"
proof -
  from assms obtain ug ue vg ve lu lv where
    ug: "vindex_mask (const (u_gt pa)) fg = Some ug"
    and ue: "vindex_mask (vextract_at_points X itp (u out)) fg = Some ue"
    and vg: "vindex_mask (const (v_gt pa)) fg = Some vg"
    and ve: "vindex_mask (vextract_at_points X itp (v out)) fg = Some ve"
    and lu: "smooth_l1_loss_sum ue ug = Some lu"
    and lv: "smooth_l1_loss_sum ve vg = Some lv"
    and rest: "(case corrections of
                  None \<Rightarrow> Some [''loss_densepose_U'' \<mapsto> smul lu (w_points L),
                                 ''loss_densepose_V'' \<mapsto> smul lv (w_points L)]
                | Some c \<Rightarrow> do {
                    u_crt_est \<leftarrow> vindex_mask (vextract_at_points X itp (crt_u c)) fg;
                    v_crt_est \<leftarrow> vindex_mask (vextract_at_points X itp (crt_v c)) fg;
                    u_crt_gt \<leftarrow> map_option detach (vsub ug (vclamp ue 0 1));
                    v_crt_gt \<leftarrow> map_option detach (vsub vg (vclamp ve 0 1));
                    lcu \<leftarrow> smooth_l1_loss_sum u_crt_est u_crt_gt;
                    lcv \<leftarrow> smooth_l1_loss_sum v_crt_est v_crt_gt;
                    Some ([''loss_densepose_U'' \<mapsto> smul lu (w_points L),
                           ''loss_densepose_V'' \<mapsto> smul lv (w_points L)]
                          ++ [''loss_correction_U'' \<mapsto> smul lcu (w_crt_points L),
                              ''loss_correction_V'' \<mapsto> smul lcv (w_crt_points L)])
                  }) = Some m"
    by (auto simp: produce_densepose_losses_uv_def bind_eq_Some_conv Let_def)
  have lu': "smul lu (w_points L) =
     \<lparr>data = Finite ((\<Sum>i\<leftarrow>true_positions fg.
                         smooth_l1 (extract_at_points X itp (data (u out)) ! i)
                                   (u_gt pa ! i)) * w_points L),
      graph = graph (u out)\<rparr>"
    using lu unfolding vindex_mask_nth [OF ug] vindex_mask_nth [OF ue]
    by (auto simp: smooth_l1_loss_sum_nth const_def vextract_at_points_def smul_def)
  have lv': "smul lv (w_points L) =
     \<lparr>data = Finite ((\<Sum>i\<leftarrow>true_positions fg.
                         smooth_l1 (extract_at_points X itp (data (v out)) ! i)
                                   (v_gt pa ! i)) * w_points L),
      graph = graph (v out)\<rparr>"
    using lv unfolding vindex_mask_nth [OF vg] vindex_mask_nth [OF ve]
    by (auto simp: smooth_l1_loss_sum_nth const_def vextract_at_points_def smul_def)
  show ?thesis
  proof (cases corrections)
    case None
    with rest have "m = [''loss_densepose_U'' \<mapsto> smul lu (w_points L),
                         ''loss_densepose_V'' \<mapsto> smul lv (w_points L)] ++ Map.empty"
      by simp
    then show ?thesis unfolding lu' lv' by (intro exI [of _ Map.empty]) simp
  next
    case (Some c)
    with rest obtain lcu lcv where
      "m = [''loss_densepose_U'' \<mapsto> smul lu (w_points L),
            ''loss_densepose_V'' \<mapsto> smul lv (w_points L)]
           ++ [''loss_correction_U'' \<mapsto> smul lcu (w_crt_points L),
               ''loss_correction_V'' \<mapsto> smul lcv (w_crt_points L)]"
      by (auto simp: bind_eq_Some_conv)
    then show ?thesis unfolding lu' lv'
      by (intro exI [of _ "[''loss_correction_U'' \<mapsto> smul lcu (w_crt_points L),
                            ''loss_correction_V'' \<mapsto> smul lcv (w_crt_points L)]"]) auto
  qed
qed


lemma uv_crt_SomeD:
  assumes "produce_densepose_losses_uv X L ps out pa itp fg (Some c) = Some m"
  shows "m ''loss_correction_U'' = Some
           \<lparr>data = Finite ((\<Sum>i\<leftarrow>true_positions fg.
                 smooth_l1 (extract_at_points X itp (data (crt_u c)) ! i)
                           (u_gt pa ! i - clamp 0 1 (extract_at_points X itp (data (u out)) ! i)))
               * w_crt_points L),
            graph = graph (crt_u c)\<rparr>"
    and "m ''loss_correction_V'' = Some
           \<lparr>data = Finite ((\<Sum>i\<leftarrow>true_positions fg.
                 smooth_l1 (extract_at_points X itp (data (crt_v c)) ! i)
                           (v_gt pa ! i - clamp 0 1 (extract_at_points X itp (data (v out)) ! i)))
               * w_crt_points L),
            graph = graph (crt_v c)\<rparr>"
proof -
  from assms obtain ug ue vg ve uce vce ucg vcg lcu lcv where
    ug: "vindex_mask (const (u_gt pa)) fg = Some ug"
    and ue: "vindex_mask (vextract_at_points X itp (u out)) fg = Some ue"
    and vg: "vindex_mask (const (v_gt pa)) fg = Some vg"
    and ve: "vindex_mask (vextract_at_points X itp (v out)) fg = Some ve"
    and uce: "vindex_mask (vextract_at_points X itp (crt_u c)) fg = Some uce"
    and vce: "vindex_mask (vextract_at_points X itp (crt_v c)) fg = Some vce"
    and ucg: "map_option detach (vsub ug (vclamp ue 0 1)) = Some ucg"
    and vcg: "map_option detach (vsub vg (vclamp ve 0 1)) = Some vcg"
    and lcu: "smooth_l1_loss_sum uce ucg = Some lcu"
    and lcv: "smooth_l1_loss_sum vce vcg = Some lcv"
    and m: "m ''loss_correction_U'' = Some (smul lcu (w_crt_points L))"
           "m ''loss_correction_V'' = Some (smul lcv (w_crt_points L))"
    by (auto simp: produce_densepose_losses_uv_def bind_eq_Some_conv Let_def)
  have ucg': "ucg = \<lparr>data = map (\<lambda>i. u_gt pa ! i
                         - clamp 0 1 (extract_at_points X itp (data (u out)) ! i))
                       (true_positions fg), graph = {}\<rparr>"
    using ucg unfolding vindex_mask_nth [OF ug] vindex_mask_nth [OF ue]
    by (auto simp: vsub_def vclamp_def detach_def const_def vextract_at_points_def
          map2_map_same)
  have vcg': "vcg = \<lparr>data = map (\<lambda>i. v_gt pa ! i
                         - clamp 0 1 (extract_at_points X itp (data (v out)) ! i))
                       (true_positions fg), graph = {}\<rparr>"
    using vcg unfolding vindex_mask_nth [OF vg] vindex_mask_nth [OF ve]
    by (auto simp: vsub_def vclamp_def detach_def const_def vextract_at_points_def
          map2_map_same)
  show "m ''loss_correction_U'' = Some
           \<lparr>data = Finite ((\<Sum>i\<leftarrow>true_positions fg.
                 smooth_l1 (extract_at_points X itp (data (crt_u c)) ! i)
                           (u_gt pa ! i - clamp 0 1 (extract_at_points X itp (data (u out)) ! i)))
               * w_crt_points L),
            graph = graph (crt_u c)\<rparr>"
    using lcu unfolding m ucg' vindex_mask_nth [OF uce]
    by (auto simp: smooth_l1_loss_sum_nth vextract_at_points_def smul_def)
  show "m ''loss_correction_V'' = Some
           \<lparr>data = Finite ((\<Sum>i\<leftarrow>true_positions fg.
                 smooth_l1 (extract_at_points X itp (data (crt_v c)) ! i)
                           (v_gt pa ! i - clamp 0 1 (extract_at_points X itp (data (v out)) ! i)))
               * w_crt_points L),
            graph = graph (crt_v c)\<rparr>"
    using lcv unfolding m vcg' vindex_mask_nth [OF vce]
    by (auto simp: smooth_l1_loss_sum_nth vextract_at_points_def smul_def)
qed

text \<open>
  The U/V losses are produced whenever the ground truth and the extracted values have one
  entry per entry of the mask.
\<close>

lemma vindex_mask_returns:
  "length (data xs) = length m \<Longrightarrow>
     vindex_mask xs m = Some \<lparr>data = map ((!) (data xs)) (true_positions m), graph = graph xs\<rparr>"
  by (simp add: vindex_mask_def index_mask_def filter_zip_nth)

lemma produce_densepose_losses_uv_returns:
  assumes "length (u_gt pa) = length fg" "length (v_gt pa) = length fg"
    and "length (extract_at_points X itp (data (u out))) = length fg"
    and "length (extract_at_points X itp (data (v out))) = length fg"
    and "case corrections of None \<Rightarrow> True
         | Some c \<Rightarrow> length (extract_at_points X itp (data (crt_u c))) = length fg
                    \<and> length (extract_at_points X itp (data (crt_v c))) = length fg"
  shows "\<exists>m. produce_densepose_losses_uv X L ps out pa itp fg corrections = Some m"
proof (cases corrections)
  case None
  with assms show ?thesis
    by (simp add: produce_densepose_losses_uv_def vindex_mask_returns const_def
          vextract_at_points_def smooth_l1_loss_sum_nth)
next
  case (Some c)
  with assms show ?thesis
    by (simp add: produce_densepose_losses_uv_def vindex_mask_returns const_def
          vextract_at_points_def smooth_l1_loss_sum_nth vsub_def vclamp_def detach_def
          map2_map_same)
qed

text \<open>
  C3: whenever the U/V losses are produced, \<^verbatim>\<open>loss_densepose_U\<close> is the smooth-L1 loss
  between the extracted U values and \<^verbatim>\<open>u_gt\<close>, summed (not averaged) over the points of
  the valid-foreground mask and multiplied by \<^verbatim>\<open>w_points\<close>, and likewise for V. For a
  single valid point with \<^verbatim>\<open>u_gt = 0.4\<close> and the estimate 0.5 the loss is
  \<open>0.5 * 0.1\<^sup>2 * w_points = 0.005 * w_points\<close>.
\<close>

theorem loss_densepose_UV_sum_smooth_l1:
  assumes "produce_densepose_losses_uv X L ps out pa itp fg corrections = Some m"
  shows "m ''loss_densepose_U'' = Some
           \<lparr>data = Finite ((\<Sum>i\<leftarrow>true_positions fg.
                               smooth_l1 (extract_at_points X itp (data (u out)) ! i)
                                         (u_gt pa ! i)) * w_points L),
            graph = graph (u out)\<rparr>
       \<and> m ''loss_densepose_V'' = Some
           \<lparr>data = Finite ((\<Sum>i\<leftarrow>true_positions fg.
                               smooth_l1 (extract_at_points X itp (data (v out)) ! i)
                                         (v_gt pa ! i)) * w_points L),
            graph = graph (v out)\<rparr>
       \<and> (true_positions fg = [i] \<and> u_gt pa ! i = 0.4
            \<and> extract_at_points X itp (data (u out)) ! i = 0.5
          \<longrightarrow> m ''loss_densepose_U'' = Some
                \<lparr>data = Finite (0.5 * 0.1\<^sup>2 * w_points L), graph = graph (u out)\<rparr>
              \<and> 0.5 * 0.1\<^sup>2 * w_points L = 0.005 * w_points L)"
proof -
  from uv_SomeD [OF assms] obtain m' where
    m: "m = [''loss_densepose_U'' \<mapsto>
                 \<lparr>data = Finite ((\<Sum>i\<leftarrow>true_positions fg.
                                     smooth_l1 (extract_at_points X itp (data (u out)) ! i)
                                               (u_gt pa ! i)) * w_points L),
                  graph = graph (u out)\<rparr>,
               ''loss_densepose_V'' \<mapsto>
                 \<lparr>data = Finite ((\<Sum>i\<leftarrow>true_positions fg.
                                     smooth_l1 (extract_at_points X itp (data (v out)) ! i)
                                               (v_gt pa ! i)) * w_points L),
                  graph = graph (v out)\<rparr>] ++ m'"
    and d: "dom m' \<subseteq> {''loss_correction_U'', ''loss_correction_V''}"
    by blast
  from d have nu: "''loss_densepose_U'' \<notin> dom m'" and nv: "''loss_densepose_V'' \<notin> dom m'"
    by auto
  have U: "m ''loss_densepose_U'' = Some
           \<lparr>data = Finite ((\<Sum>i\<leftarrow>true_positions fg.
                               smooth_l1 (extract_at_points X itp (data (u out)) ! i)
                                         (u_gt pa ! i)) * w_points L),
            graph = graph (u out)\<rparr>"
    unfolding m using nu by (simp add: map_add_dom_app_simps)
  have V: "m ''loss_densepose_V'' = Some
           \<lparr>data = Finite ((\<Sum>i\<leftarrow>true_positions fg.
                               smooth_l1 (extract_at_points X itp (data (v out)) ! i)
                                         (v_gt pa ! i)) * w_points L),
            graph = graph (v out)\<rparr>"
    unfolding m using nv by (simp add: map_add_dom_app_simps)
  have S: "smooth_l1 0.5 0.4 = 0.5 * 0.1\<^sup>2"
    by (simp add: smooth_l1_def power2_eq_square)
  show ?thesis
  proof (intro conjI impI)
    show "m ''loss_densepose_U'' = Some
           \<lparr>data = Finite ((\<Sum>i\<leftarrow>true_positions fg.
                               smooth_l1 (extract_at_points X itp (data (u out)) ! i)
                                         (u_gt pa ! i)) * w_points L),
            graph = graph (u out)\<rparr>" by (rule U)
    show "m ''loss_densepose_V'' = Some
           \<lparr>data = Finite ((\<Sum>i\<leftarrow>true_positions fg.
                               smooth_l1 (extract_at_points X itp (data (v out)) ! i)
                                         (v_gt pa ! i)) * w_points L),
            graph = graph (v out)\<rparr>" by (rule V)
    show "(0.5::real) * 0.1\<^sup>2 * w_points L = 0.005 * w_points L"
      by (simp add: power2_eq_square)
    assume h: "true_positions fg = [i] \<and> u_gt pa ! i = 0.4
                 \<and> extract_at_points X itp (data (u out)) ! i = 0.5"
    then have tp: "true_positions fg = [i]" and gt: "u_gt pa ! i = 0.4"
      and est: "extract_at_points X itp (data (u out)) ! i = 0.5" by blast+
    have "(\<Sum>j\<leftarrow>[i]. smooth_l1 (extract_at_points X itp (data (u out)) ! j) (u_gt pa ! j))
            = smooth_l1 (extract_at_points X itp (data (u out)) ! i) (u_gt pa ! i)"
      by simp
    also have "\<dots> = 0.5 * 0.1\<^sup>2" unfolding est gt by (rule S)
    finally have one:
      "(\<Sum>j\<leftarrow>[i]. smooth_l1 (extract_at_points X itp (data (u out)) ! j) (u_gt pa ! j))
         = 0.5 * 0.1\<^sup>2" .
    show "m ''loss_densepose_U'' = Some
            \<lparr>data = Finite (0.5 * 0.1\<^sup>2 * w_points L), graph = graph (u out)\<rparr>"
      unfolding U tp one by (rule refl)
  qed
qed

text \<open>The example has one valid foreground point, with \<^verbatim>\<open>u_gt = 0.4\<close> and the estimate 0.5.\<close>

theorem loss_densepose_UV_sum_smooth_l1_witness:
  "produce_densepose_losses_uv ex_collaborators ex_loss [Some ex_packed] ex_out ex_packed
      (from_matches ex_collaborators ex_packed (1, 1)) [True, False] (Some ex_corrections)
     \<noteq> None
   \<and> true_positions [True, False] = [0] \<and> u_gt ex_packed ! 0 = 0.4 \<and> w_points ex_loss = 2
   \<and> the (produce_densepose_losses_uv ex_collaborators ex_loss [Some ex_packed] ex_out ex_packed
       (from_matches ex_collaborators ex_packed (1, 1)) [True, False] (Some ex_corrections))
        ''loss_densepose_U'' = Some \<lparr>data = Finite (0.005 * 2), graph = {2}\<rparr>"
proof -
  let ?itp = "from_matches ex_collaborators ex_packed (1, 1)"
  obtain m where m: "produce_densepose_losses_uv ex_collaborators ex_loss [Some ex_packed]
      ex_out ex_packed ?itp [True, False] (Some ex_corrections) = Some m"
    using ex_uv by blast
  have tp: "true_positions [True, False] = [0]"
    by (simp add: true_positions_def upt_0_2)
  have gt: "u_gt ex_packed ! 0 = 0.4" by (simp add: ex_packed_def)
  have est: "extract_at_points ex_collaborators ?itp (data (u ex_out)) ! 0 = 0.5"
    by (simp add: ex_collaborators_def ex_packed_def ex_out_def)
  have w: "w_points ex_loss = 2" by (simp add: ex_loss_def)
  have g: "graph (u ex_out) = {2}" by (simp add: ex_out_def)
  from loss_densepose_UV_sum_smooth_l1 [OF m, of 0] tp gt est
  have "m ''loss_densepose_U'' = Some
          \<lparr>data = Finite (0.5 * 0.1\<^sup>2 * w_points ex_loss), graph = graph (u ex_out)\<rparr>
        \<and> 0.5 * 0.1\<^sup>2 * w_points ex_loss = 0.005 * w_points ex_loss"
    by blast
  then have "m ''loss_densepose_U'' = Some \<lparr>data = Finite (0.005 * 2), graph = {2}\<rparr>"
    unfolding w g by simp
  with m tp gt w show ?thesis by simp
qed


text \<open>
  C6: with corrections, \<^verbatim>\<open>loss_correction_U\<close> is the smooth-L1 loss, summed over the same
  valid-foreground points and multiplied by \<^verbatim>\<open>w_crt_points\<close>, between the corrected U
  and the residual \<open>u_gt - clamp(u_est, 0, 1)\<close>; its graph is the graph of the corrected
  U alone, so nothing flows into the base estimate. Likewise for V.
\<close>

theorem loss_correction_UV_detached_residual:
  assumes "produce_densepose_losses_uv X L ps out pa itp fg (Some c) = Some m"
  shows "m ''loss_correction_U'' = Some
           \<lparr>data = Finite ((\<Sum>i\<leftarrow>true_positions fg.
                 smooth_l1 (extract_at_points X itp (data (crt_u c)) ! i)
                           (u_gt pa ! i - clamp 0 1 (extract_at_points X itp (data (u out)) ! i)))
               * w_crt_points L),
            graph = graph (crt_u c)\<rparr>
       \<and> m ''loss_correction_V'' = Some
           \<lparr>data = Finite ((\<Sum>i\<leftarrow>true_positions fg.
                 smooth_l1 (extract_at_points X itp (data (crt_v c)) ! i)
                           (v_gt pa ! i - clamp 0 1 (extract_at_points X itp (data (v out)) ! i)))
               * w_crt_points L),
            graph = graph (crt_v c)\<rparr>"
  using uv_crt_SomeD [OF assms] by (intro conjI)

text \<open>In the example the residual is \<open>0.4 - 0.5\<close> and the corrected U is 0.\<close>

theorem loss_correction_UV_detached_residual_witness:
  "produce_densepose_losses_uv ex_collaborators ex_loss [Some ex_packed] ex_out ex_packed
      (from_matches ex_collaborators ex_packed (1, 1)) [True, False] (Some ex_corrections)
     \<noteq> None
   \<and> graph (u ex_out) = {2}
   \<and> the (produce_densepose_losses_uv ex_collaborators ex_loss [Some ex_packed] ex_out ex_packed
       (from_matches ex_collaborators ex_packed (1, 1)) [True, False] (Some ex_corrections))
        ''loss_correction_U'' = Some \<lparr>data = Finite (1 / 200), graph = {4}\<rparr>"
proof -
  let ?itp = "from_matches ex_collaborators ex_packed (1, 1)"
  obtain m where m: "produce_densepose_losses_uv ex_collaborators ex_loss [Some ex_packed]
      ex_out ex_packed ?itp [True, False] (Some ex_corrections) = Some m"
    using ex_uv by blast
  have tp: "true_positions [True, False] = [0]"
    by (simp add: true_positions_def upt_0_2)
  have v: "(\<Sum>i\<leftarrow>[0]. smooth_l1 (extract_at_points ex_collaborators ?itp
                                     (data (crt_u ex_corrections)) ! i)
             (u_gt ex_packed ! i
                - clamp 0 1 (extract_at_points ex_collaborators ?itp (data (u ex_out)) ! i)))
           * w_crt_points ex_loss = 1 / 200"
    by (simp add: ex_collaborators_def ex_packed_def ex_out_def ex_corrections_def ex_loss_def
          smooth_l1_def clamp_def power2_eq_square)
  have g: "graph (crt_u ex_corrections) = {4}" "graph (u ex_out) = {2}"
    by (simp_all add: ex_corrections_def ex_out_def)
  from loss_correction_UV_detached_residual [OF m]
  have "m ''loss_correction_U'' = Some \<lparr>data = Finite (1 / 200), graph = {4}\<rparr>"
    unfolding tp v g by blast
  with m g show ?thesis by simp
qed

subsection \<open>Classification losses at the annotated points\<close>

lemma zip_map_same: "zip (map f xs) (map g xs) = map (\<lambda>x. (f x, g x)) xs"
  by (induction xs) simp_all

lemma sum_list_exp_pos: "row \<noteq> [] \<Longrightarrow> 0 < (\<Sum>x\<leftarrow>row. exp x)"
  for row :: "real list"
proof (induction row)
  case Nil
  then show ?case by simp
next
  case (Cons a row)
  show ?case
  proof (cases "row = []")
    case True
    then show ?thesis by simp
  next
    case False
    with Cons have "0 < (\<Sum>x\<leftarrow>row. exp x)" by simp
    moreover have "0 < exp a" by simp
    ultimately show ?thesis by (simp add: add_pos_pos)
  qed
qed

lemma ce_row_softmax:
  assumes "ce_row row t = Some x"
  shows "x = softmax_cross_entropy row t"
proof -
  from assms have t: "t < length row" and x: "x = ln (\<Sum>x\<leftarrow>row. exp x) - row ! t"
    by (auto simp: ce_row_def split: if_splits)
  from t have "row \<noteq> []" by auto
  then have "0 < (\<Sum>x\<leftarrow>row. exp x)" by (rule sum_list_exp_pos)
  then show ?thesis
    unfolding x softmax_cross_entropy_def by (simp add: ln_div)
qed

lemma those_ce_rows:
  "those (map (\<lambda>i. ce_row (f i) (g i)) ps) = Some d \<Longrightarrow>
     d = map (\<lambda>i. softmax_cross_entropy (f i) (g i)) ps"
proof (induction ps arbitrary: d)
  case Nil
  then show ?case by simp
next
  case (Cons p ps)
  then show ?case
    by (auto split: option.splits dest: ce_row_softmax)
qed

lemma cross_entropy_none_nth:
  assumes "cross_entropy_none \<lparr>data = map f ps, graph = g\<rparr> (map h ps) = Some l"
  shows "l = \<lparr>data = map (\<lambda>i. softmax_cross_entropy (f i) (h i)) ps, graph = g\<rparr>"
  using assms
  by (auto simp: cross_entropy_none_def map2_map_same dest: those_ce_rows)

lemma vmean_map:
  "vmean \<lparr>data = map f ps, graph = g\<rparr> =
     \<lparr>data = (if ps = [] then NaN else Finite ((\<Sum>i\<leftarrow>ps. f i) / real (length ps))), graph = g\<rparr>"
  by (simp add: vmean_def)

lemma segm_I_value:
  assumes "produce_densepose_losses_segm X L ps out pa itp fg corrections = Some m"
  shows "m ''loss_densepose_I'' = Some
           (smul \<lparr>data = (if true_positions (j_valid itp) = [] then NaN
                          else Finite ((\<Sum>i\<leftarrow>true_positions (j_valid itp).
                                  softmax_cross_entropy
                                    (data (vextract_at_points_sliced X itp (fine_segm out)) ! i)
                                    (fine_segm_labels_gt pa ! i))
                                 / real (length (true_positions (j_valid itp))))),
                  graph = graph (fine_segm out)\<rparr> (w_part L))"
proof -
  from assms obtain gts ests li where
    gts: "index_mask (fine_segm_labels_gt pa) (j_valid itp) = Some gts"
    and ests: "vindex_mask (vextract_at_points_sliced X itp (fine_segm out)) (j_valid itp)
                 = Some ests"
    and li: "cross_entropy ests gts = Some li"
    and m: "m ''loss_densepose_I'' = Some (smul li (w_part L))"
    by (cases corrections)
       (auto simp: produce_densepose_losses_segm_def bind_eq_Some_conv Let_def)
  from li obtain l where l: "cross_entropy_none ests gts = Some l" and li': "li = vmean l"
    by (auto simp: cross_entropy_def)
  have g: "graph (vextract_at_points_sliced X itp (fine_segm out)) = graph (fine_segm out)"
    by (simp add: vextract_at_points_sliced_def)
  show ?thesis
    unfolding m li'
      cross_entropy_none_nth [OF l [unfolded vindex_mask_nth [OF ests] index_mask_nth [OF gts]]]
      vmean_map g ..
qed


text \<open>
  Without corrections the segmentation losses are produced whenever the labels and the
  extracted rows have one entry per annotated point and every label of a valid point is
  a channel of its row.
\<close>

lemma produce_densepose_losses_segm_returns:
  assumes "length (fine_segm_labels_gt pa) = length (j_valid itp)"
    and "length (data (vextract_at_points_sliced X itp (fine_segm out))) = length (j_valid itp)"
    and "list_all (\<lambda>i. fine_segm_labels_gt pa ! i
                         < length (data (vextract_at_points_sliced X itp (fine_segm out)) ! i))
           (true_positions (j_valid itp))"
  shows "\<exists>m. produce_densepose_losses_segm X L ps out pa itp fg None = Some m"
proof -
  let ?rows = "data (vextract_at_points_sliced X itp (fine_segm out))"
  let ?tp = "true_positions (j_valid itp)"
  have "map (\<lambda>i. ce_row (?rows ! i) (fine_segm_labels_gt pa ! i)) ?tp
          = map Some (map (\<lambda>i. ln (\<Sum>x\<leftarrow>?rows ! i. exp x)
                                  - ?rows ! i ! (fine_segm_labels_gt pa ! i)) ?tp)"
    using assms(3) by (simp add: list_all_iff ce_row_def)
  then obtain d where
    "those (map (\<lambda>i. ce_row (?rows ! i) (fine_segm_labels_gt pa ! i)) ?tp) = Some d"
    unfolding those_Some_iff by blast
  with assms(1,2) show ?thesis
    by (simp add: produce_densepose_losses_segm_def vindex_mask_returns index_mask_def
          filter_zip_nth cross_entropy_def cross_entropy_none_def map2_map_same)
qed

lemma ne_elementwise_map:
  "map F ps = map Some am \<Longrightarrow>
     map2 (\<noteq>) am (map h ps) = map (\<lambda>i. F i \<noteq> Some (h i)) ps"
proof (induction ps arbitrary: am)
  case Nil
  then show ?case by simp
next
  case (Cons p ps)
  then show ?case by (cases am) auto
qed

lemma map_filter_zip:
  "map g (map fst (filter snd (zip xs m))) = map fst (filter snd (zip (map g xs) m))"
proof (induction xs arbitrary: m)
  case Nil
  then show ?case by simp
next
  case (Cons x xs)
  then show ?case by (cases m) auto
qed

lemma crt_pipeline:
  fixes f c :: "nat \<Rightarrow> real list" and h :: "nat \<Rightarrow> nat"
  assumes am: "argmax_dim1 (map f ps) = Some am"
    and idx: "ne_elementwise am (map h ps) = Some index"
    and pk: "index_mask (map h ps) index = Some picked"
    and tg: "masked_assign (map (\<lambda>_. 1 * n) (map h ps)) index picked = Some tgt"
    and cl: "cross_entropy_none \<lparr>data = map c ps, graph = g\<rparr> tgt = Some crt_loss"
    and ag: "index_mask (data crt_loss) (map Not index) = Some agreed"
    and db: "masked_assign (data crt_loss) (map Not index) (map (\<lambda>x. x * 2) agreed)
               = Some doubled"
  shows "doubled = map (\<lambda>i. crt_weight (f i) (h i)
                          * softmax_cross_entropy (c i) (crt_target n (f i) (h i))) ps
         \<and> graph crt_loss = g"
proof -
  from am have "map (\<lambda>i. argmax_row (f i)) ps = map Some am"
    by (simp add: argmax_dim1_def those_Some_iff o_def)
  from ne_elementwise_map [OF this, of h] idx
  have index: "index = map (\<lambda>i. argmax_row (f i) \<noteq> Some (h i)) ps"
    by (auto simp: ne_elementwise_def split: if_splits)
  from pk have picked: "picked = map fst (filter snd (zip (map h ps) index))"
    by (auto dest: index_mask_SomeD)
  have "masked_assign (map (\<lambda>_. 1 * n) (map h ps)) index picked =
          Some (map (\<lambda>(x, y, b). if b then y else x)
                  (zip (map (\<lambda>_. 1 * n) (map h ps)) (zip (map h ps) index)))"
    unfolding picked by (rule masked_assign_pointwise) (simp_all add: index)
  with tg have tgt: "tgt = map (\<lambda>i. crt_target n (f i) (h i)) ps"
    by (simp add: index zip_map_same crt_target_def o_def zip_same_conv_map
          zip_map1 zip_map2 cong: map_cong)
  from cross_entropy_none_nth [OF cl [unfolded tgt]]
  have cl': "crt_loss = \<lparr>data = map (\<lambda>i. softmax_cross_entropy (c i)
                                         (crt_target n (f i) (h i))) ps, graph = g\<rparr>" .
  let ?d = "map (\<lambda>i. softmax_cross_entropy (c i) (crt_target n (f i) (h i))) ps"
  from ag have agreed: "agreed = map fst (filter snd (zip ?d (map Not index)))"
    unfolding cl' by (auto dest: index_mask_SomeD)
  have "masked_assign ?d (map Not index)
           (map fst (filter snd (zip (map (\<lambda>x. x * 2) ?d) (map Not index)))) =
          Some (map (\<lambda>(x, y, b). if b then y else x)
                  (zip ?d (zip (map (\<lambda>x. x * 2) ?d) (map Not index))))"
    by (rule masked_assign_pointwise) (simp_all add: index)
  with db have "doubled = map (\<lambda>(x, y, b). if b then y else x)
                  (zip ?d (zip (map (\<lambda>x. x * 2) ?d) (map Not index)))"
    unfolding cl' agreed map_filter_zip by simp
  also have "\<dots> = map (\<lambda>i. crt_weight (f i) (h i)
                          * softmax_cross_entropy (c i) (crt_target n (f i) (h i))) ps"
    by (simp add: index zip_map_same crt_weight_def o_def zip_same_conv_map
          zip_map1 zip_map2 cong: map_cong)
  finally show ?thesis using cl' by simp
qed


lemma fmul_if_NaN: "fmul (if b then NaN else Finite x) w = (if b then NaN else Finite (x * w))"
  by simp

text \<open>
  C4: whenever the segmentation losses are produced, \<^verbatim>\<open>loss_densepose_I\<close> is the softmax
  cross-entropy between the full rows of scores extracted at the points and their labels,
  averaged over all the points that are valid for the interpolator and multiplied by
  \<^verbatim>\<open>w_part\<close>. The valid-foreground mask plays no part: any other mask gives the same
  result, so background points (label 0) are included. On the real path of the
  orchestrator at least one point is valid, and the mean is a number.
\<close>

theorem loss_densepose_I_mean_cross_entropy:
  assumes "produce_densepose_losses_segm X L ps out pa itp fg corrections = Some m"
  shows "m ''loss_densepose_I'' = Some
           \<lparr>data = (if true_positions (j_valid itp) = [] then NaN
                    else Finite ((\<Sum>i\<leftarrow>true_positions (j_valid itp).
                            softmax_cross_entropy
                              (data (vextract_at_points_sliced X itp (fine_segm out)) ! i)
                              (fine_segm_labels_gt pa ! i))
                           / real (length (true_positions (j_valid itp))) * w_part L)),
            graph = graph (fine_segm out)\<rparr>
       \<and> produce_densepose_losses_segm X L ps out pa itp fg' corrections = Some m
       \<and> (valid_foreground itp pa = Some fg \<and> list_ex id fg
            \<longrightarrow> true_positions (j_valid itp) \<noteq> [])"
proof (intro conjI impI)
  show "m ''loss_densepose_I'' = Some
           \<lparr>data = (if true_positions (j_valid itp) = [] then NaN
                    else Finite ((\<Sum>i\<leftarrow>true_positions (j_valid itp).
                            softmax_cross_entropy
                              (data (vextract_at_points_sliced X itp (fine_segm out)) ! i)
                              (fine_segm_labels_gt pa ! i))
                           / real (length (true_positions (j_valid itp))) * w_part L)),
            graph = graph (fine_segm out)\<rparr>"
    unfolding segm_I_value [OF assms] by (simp add: smul_def)
  show "produce_densepose_losses_segm X L ps out pa itp fg' corrections = Some m"
    using assms unfolding produce_densepose_losses_segm_def .
  assume "valid_foreground itp pa = Some fg \<and> list_ex id fg"
  then have fg: "fg = map2 (\<and>) (j_valid itp) (map (\<lambda>l. 0 < l) (fine_segm_labels_gt pa))"
    and ex: "list_ex id fg"
    by (simp_all add: valid_foreground_def split: if_splits)
  from ex obtain a b where "(a, b) \<in> set (zip (j_valid itp)
                                      (map (\<lambda>l. 0 < l) (fine_segm_labels_gt pa)))" "a \<and> b"
    unfolding fg list_ex_iff by auto
  then have "a \<in> set (j_valid itp)" "a" by (auto dest: set_zip_leftD)
  then have "list_ex id (j_valid itp)" unfolding list_ex_iff by auto
  then show "true_positions (j_valid itp) \<noteq> []" by (simp add: true_positions_any)
qed

lemma ex_rows:
  "data (vextract_at_points_sliced ex_collaborators
           (from_matches ex_collaborators ex_packed hw) (fine_segm ex_out)) = [[0, 1], [0, 1]]"
  "data (vextract_at_points_sliced ex_collaborators
           (from_matches ex_collaborators ex_packed hw) (crt_fine_segm ex_corrections))
     = [[0, 0, 0], [0, 0, 0]]"
  by (simp_all add: vextract_at_points_sliced_def ex_collaborators_def ex_packed_def ex_out_def
        ex_corrections_def)

lemma ex_tp: "true_positions (j_valid (from_matches ex_collaborators ex_packed hw)) = [0, Suc 0]"
  by (simp add: ex_itp true_positions_def upt_0_2)

text \<open>The second point of the example is a background point, and its term is in the mean.\<close>

theorem loss_densepose_I_mean_cross_entropy_witness:
  "produce_densepose_losses_segm ex_collaborators ex_loss [Some ex_packed] ex_out ex_packed
      (from_matches ex_collaborators ex_packed (1, 1)) [True, False] (Some ex_corrections)
     \<noteq> None
   \<and> fine_segm_labels_gt ex_packed = [1, 0]
   \<and> the (produce_densepose_losses_segm ex_collaborators ex_loss [Some ex_packed] ex_out
       ex_packed (from_matches ex_collaborators ex_packed (1, 1)) [True, False]
       (Some ex_corrections)) ''loss_densepose_I''
      = Some \<lparr>data = Finite ((softmax_cross_entropy [0, 1] 1 + softmax_cross_entropy [0, 1] 0)
                               / 2),
               graph = {1}\<rparr>"
proof -
  let ?itp = "from_matches ex_collaborators ex_packed (1, 1)"
  obtain m where m: "produce_densepose_losses_segm ex_collaborators ex_loss [Some ex_packed]
      ex_out ex_packed ?itp [True, False] (Some ex_corrections) = Some m"
    using ex_segm by blast
  have l: "fine_segm_labels_gt ex_packed = [1, 0]" by (simp add: ex_packed_def)
  from loss_densepose_I_mean_cross_entropy [OF m]
  have "m ''loss_densepose_I''
      = Some \<lparr>data = Finite ((softmax_cross_entropy [0, 1] 1 + softmax_cross_entropy [0, 1] 0)
                               / 2),
               graph = {1}\<rparr>"
    unfolding ex_tp ex_rows l by (simp add: ex_loss_def ex_out_def)
  with m l show ?thesis by simp
qed

lemma segm_crt_value:
  assumes "produce_densepose_losses_segm X L ps out pa itp fg (Some c) = Some m"
  shows "m ''loss_correction_I'' = Some
           (smul (vmean \<lparr>data = map (\<lambda>i.
                     crt_weight (data (vextract_at_points_sliced X itp (fine_segm out)) ! i)
                                (fine_segm_labels_gt pa ! i)
                     * softmax_cross_entropy
                         (data (vextract_at_points_sliced X itp (crt_fine_segm c)) ! i)
                         (crt_target (n_channels L)
                            (data (vextract_at_points_sliced X itp (fine_segm out)) ! i)
                            (fine_segm_labels_gt pa ! i)))
                   (true_positions (j_valid itp)),
                 graph = graph (crt_fine_segm c)\<rparr>) (w_crt_segm L))"
proof -
  from assms obtain gts ests crts am index picked tgt crt_loss agreed doubled where
    gts: "index_mask (fine_segm_labels_gt pa) (j_valid itp) = Some gts"
    and ests: "vindex_mask (vextract_at_points_sliced X itp (fine_segm out)) (j_valid itp)
                 = Some ests"
    and crts: "vindex_mask (vextract_at_points_sliced X itp (crt_fine_segm c)) (j_valid itp)
                 = Some crts"
    and am: "argmax_dim1 (data ests) = Some am"
    and idx: "ne_elementwise am gts = Some index"
    and pk: "index_mask gts index = Some picked"
    and tg: "masked_assign (map (\<lambda>_. 1 * n_channels L) gts) index picked = Some tgt"
    and cl: "cross_entropy_none crts tgt = Some crt_loss"
    and ag: "index_mask (data crt_loss) (map Not index) = Some agreed"
    and db: "masked_assign (data crt_loss) (map Not index) (map (\<lambda>x. x * 2) agreed)
               = Some doubled"
    and m: "m ''loss_correction_I'' =
              Some (smul (vmean \<lparr>data = doubled, graph = graph crt_loss\<rparr>) (w_crt_segm L))"
    by (auto simp: produce_densepose_losses_segm_def bind_eq_Some_conv Let_def)
  note gts' = index_mask_nth [OF gts]
  note ests' = vindex_mask_nth [OF ests]
  note crts' = vindex_mask_nth [OF crts]
  have g: "graph (vextract_at_points_sliced X itp (crt_fine_segm c)) = graph (crt_fine_segm c)"
    by (simp add: vextract_at_points_sliced_def)
  from crt_pipeline [OF am [unfolded ests' var.simps] idx [unfolded gts']
        pk [unfolded gts'] tg [unfolded gts'] cl [unfolded crts'] ag db]
  show ?thesis unfolding m g by simp
qed


text \<open>
  C5: with corrections, the target of the correction head at a valid point is the abstain
  class \<^verbatim>\<open>n_channels\<close> where the argmax of the base scores agrees with the label, and
  the label itself where it disagrees; the cross-entropy of a point of agreement counts
  twice, that of a point of disagreement once; \<^verbatim>\<open>loss_correction_I\<close> is the mean of
  these weighted terms over the valid points, multiplied by \<^verbatim>\<open>w_crt_segm\<close>.
\<close>

theorem loss_correction_I_abstain_target_double_weight:
  assumes "produce_densepose_losses_segm X L ps out pa itp fg (Some c) = Some m"
  shows "m ''loss_correction_I'' = Some
           \<lparr>data = (if true_positions (j_valid itp) = [] then NaN
                    else Finite ((\<Sum>i\<leftarrow>true_positions (j_valid itp).
                       crt_weight (data (vextract_at_points_sliced X itp (fine_segm out)) ! i)
                                  (fine_segm_labels_gt pa ! i)
                       * softmax_cross_entropy
                           (data (vextract_at_points_sliced X itp (crt_fine_segm c)) ! i)
                           (crt_target (n_channels L)
                              (data (vextract_at_points_sliced X itp (fine_segm out)) ! i)
                              (fine_segm_labels_gt pa ! i)))
                      / real (length (true_positions (j_valid itp))) * w_crt_segm L)),
            graph = graph (crt_fine_segm c)\<rparr>
       \<and> (argmax_row row = Some gt
            \<longrightarrow> crt_target (n_channels L) row gt = n_channels L \<and> crt_weight row gt = 2)
       \<and> (argmax_row row \<noteq> Some gt
            \<longrightarrow> crt_target (n_channels L) row gt = gt \<and> crt_weight row gt = 1)"
proof (intro conjI impI)
  show "m ''loss_correction_I'' = Some
           \<lparr>data = (if true_positions (j_valid itp) = [] then NaN
                    else Finite ((\<Sum>i\<leftarrow>true_positions (j_valid itp).
                       crt_weight (data (vextract_at_points_sliced X itp (fine_segm out)) ! i)
                                  (fine_segm_labels_gt pa ! i)
                       * softmax_cross_entropy
                           (data (vextract_at_points_sliced X itp (crt_fine_segm c)) ! i)
                           (crt_target (n_channels L)
                              (data (vextract_at_points_sliced X itp (fine_segm out)) ! i)
                              (fine_segm_labels_gt pa ! i)))
                      / real (length (true_positions (j_valid itp))) * w_crt_segm L)),
            graph = graph (crt_fine_segm c)\<rparr>"
    unfolding segm_crt_value [OF assms] vmean_map by (simp add: smul_def)
qed (simp_all add: crt_target_def crt_weight_def)

text \<open>
  In the example the base argmax is 1: the first point (label 1) gets the abstain class 2
  and the weight 2, the second (label 0) keeps its label and the weight 1.
\<close>

theorem loss_correction_I_abstain_target_double_weight_witness:
  "produce_densepose_losses_segm ex_collaborators ex_loss [Some ex_packed] ex_out ex_packed
      (from_matches ex_collaborators ex_packed (1, 1)) [True, False] (Some ex_corrections)
     \<noteq> None
   \<and> n_channels ex_loss = 2
   \<and> argmax_row [0, 1] = Some 1 \<and> fine_segm_labels_gt ex_packed = [1, 0]
   \<and> the (produce_densepose_losses_segm ex_collaborators ex_loss [Some ex_packed] ex_out
       ex_packed (from_matches ex_collaborators ex_packed (1, 1)) [True, False]
       (Some ex_corrections)) ''loss_correction_I''
      = Some \<lparr>data = Finite ((2 * softmax_cross_entropy [0, 0, 0] 2
                                + 1 * softmax_cross_entropy [0, 0, 0] 0) / 2),
               graph = {6}\<rparr>"
proof -
  let ?itp = "from_matches ex_collaborators ex_packed (1, 1)"
  obtain m where m: "produce_densepose_losses_segm ex_collaborators ex_loss [Some ex_packed]
      ex_out ex_packed ?itp [True, False] (Some ex_corrections) = Some m"
    using ex_segm by blast
  have l: "fine_segm_labels_gt ex_packed = [1, 0]" by (simp add: ex_packed_def)
  have n: "n_channels ex_loss = 2" by (simp add: ex_loss_def)
  have a: "argmax_row [0, 1] = Some 1" by (simp add: argmax_row_def)
  note T = loss_correction_I_abstain_target_double_weight [OF m, of "[0, 1]"]
  from T [of 1] a have agree: "crt_target 2 [0, 1] 1 = 2" "crt_weight [0, 1] 1 = 2"
    unfolding n by simp_all
  from T [of 0] a have differ: "crt_target 2 [0, 1] 0 = 0" "crt_weight [0, 1] 0 = 1"
    unfolding n by simp_all
  from T [of 0, THEN conjunct1]
  have "m ''loss_correction_I''
      = Some \<lparr>data = Finite ((2 * softmax_cross_entropy [0, 0, 0] 2
                                + 1 * softmax_cross_entropy [0, 0, 0] 0) / 2),
               graph = {6}\<rparr>"
    unfolding ex_tp ex_rows l n
    using agree differ by (simp add: ex_loss_def ex_corrections_def)
  with m l n a show ?thesis by simp
qed

subsection \<open>The pseudo-label branch\<close>

lemmas unsup_eval_defs =
  unsup_iteration_def getattr_packed_def getattr_output_def
  index_select_def unsup_rows_def permute_0231_def reshape_rows_def index_mask_def
  unsup_segm_branch_def unsup_uv_branch_def confidence_gate_def argsort_desc_def column_def
  cross_entropy_none_def ce_row_def gather_topk_def smooth_l1_loss_none_def smooth_l1_def
  smul_def vmean_def const_def vindex_mask_def power2_eq_square upt_0_2
  produce_fake_densepose_losses_unsup_def tsum_def

lemma ex_unsup_no_u_p:
  "produce_densepose_losses_unsup ex_collaborators ex_loss ps ex_out ex_packed_no_u_p =
     Some (produce_fake_densepose_losses_unsup ex_out)"
proof -
  have pos: "pos_index_of ex_collaborators ex_loss ex_packed_no_u_p = Some [True]"
    by (simp add: pos_index_of_def ex_collaborators_def ex_loss_def ex_packed_no_u_p_def
          ex_packed_def unsqueeze1_def squeeze1_def)
  show ?thesis
    apply (simp add: produce_densepose_losses_unsup_def pos pseudo_keys_def est_keys_def
        initial_state_def)
    apply (simp add: unsup_eval_defs ex_collaborators_def ex_loss_def ex_packed_no_u_p_def
        ex_packed_def ex_out_def)
    done
qed

lemma ex_pos_empty:
  "pos_index_of ex_collaborators ex_loss ex_packed_no_foreground_pixel = Some [False]"
  "pos_index_of ex_collaborators ex_loss_gated ex_packed_no_foreground_pixel = Some [False]"
  by (simp_all add: pos_index_of_def ex_collaborators_def ex_loss_def ex_loss_gated_def
        ex_packed_no_foreground_pixel_def ex_packed_def unsqueeze1_def squeeze1_def)

lemma ex_unsup_empty:
  "produce_densepose_losses_unsup ex_collaborators ex_loss ps ex_out
       ex_packed_no_foreground_pixel =
     Some [''loss_unsup_segm'' \<mapsto> \<lparr>data = NaN, graph = {1}\<rparr>,
           ''loss_u_p'' \<mapsto> \<lparr>data = NaN, graph = {2}\<rparr>,
           ''loss_v_p'' \<mapsto> \<lparr>data = NaN, graph = {3}\<rparr>]"
  apply (simp add: produce_densepose_losses_unsup_def ex_pos_empty pseudo_keys_def est_keys_def
      initial_state_def)
  apply (simp add: unsup_eval_defs ex_collaborators_def ex_loss_def
      ex_packed_no_foreground_pixel_def ex_packed_def ex_out_def)
  done

lemma ex_unsup_empty_gated:
  "produce_densepose_losses_unsup ex_collaborators ex_loss_gated ps ex_out
       ex_packed_no_foreground_pixel =
     Some (produce_fake_densepose_losses_unsup ex_out)"
  apply (simp add: produce_densepose_losses_unsup_def ex_pos_empty pseudo_keys_def est_keys_def
      initial_state_def)
  apply (simp add: unsup_eval_defs ex_collaborators_def ex_loss_def ex_loss_gated_def
      ex_packed_no_foreground_pixel_def ex_packed_def ex_out_def)
  done

lemma ex_unsup_gated:
  "produce_densepose_losses_unsup ex_collaborators ex_loss_gated ps ex_out ex_packed =
     Some (produce_fake_densepose_losses_unsup ex_out)"
proof -
  have pos: "pos_index_of ex_collaborators ex_loss_gated ex_packed = Some [True]"
    by (simp add: pos_index_of_def ex_collaborators_def ex_loss_def ex_loss_gated_def
          ex_packed_def unsqueeze1_def squeeze1_def)
  show ?thesis
    apply (simp add: produce_densepose_losses_unsup_def pos pseudo_keys_def est_keys_def
        initial_state_def)
    apply (simp add: unsup_eval_defs ex_collaborators_def ex_loss_def ex_loss_gated_def
        ex_packed_def ex_out_def)
    done
qed


text \<open>
  C7, as stated, does not hold at the threshold 1.0: the test \<^verbatim>\<open>pseudo_threshold < 1\<close>
  switches the gating off. In the example the threshold is 1 and the only point has the
  confidence 1/2, yet the branch returns the real losses, not the fake ones.
\<close>

theorem unsup_real_loss_at_threshold_one:
  "pseudo_threshold ex_loss = 1
   \<and> unsup_rows ex_loss (the (fine_segm_p ex_packed)) [True] = Some [[3 / 10, 1 / 2]]
   \<and> those (map row_max [[3 / 10, 1 / 2]]) = Some [1 / 2]
   \<and> produce_densepose_losses_unsup ex_collaborators ex_loss [Some ex_packed] ex_out ex_packed
        = Some [''loss_unsup_segm'' \<mapsto> \<lparr>data = Finite (ln (1 + exp 1) - 1), graph = {1}\<rparr>,
                ''loss_u_p'' \<mapsto> \<lparr>data = Finite (1 / 8), graph = {2}\<rparr>,
                ''loss_v_p'' \<mapsto> \<lparr>data = Finite (1 / 8), graph = {3}\<rparr>]
   \<and> produce_densepose_losses_unsup ex_collaborators ex_loss [Some ex_packed] ex_out ex_packed
        \<noteq> Some (produce_fake_densepose_losses_unsup ex_out)"
proof -
  have "[''loss_unsup_segm'' \<mapsto> \<lparr>data = Finite (ln (1 + exp 1) - 1), graph = {1}\<rparr>,
         ''loss_u_p'' \<mapsto> \<lparr>data = Finite (1 / 8), graph = {2}\<rparr>,
         ''loss_v_p'' \<mapsto> \<lparr>data = Finite (1 / 8), graph = {3::nat}\<rparr>] ''loss_u_p''
        \<noteq> produce_fake_densepose_losses_unsup ex_out ''loss_u_p''"
    by (simp add: produce_fake_densepose_losses_unsup_def smul_def tsum_def)
  then have "[''loss_unsup_segm'' \<mapsto> \<lparr>data = Finite (ln (1 + exp 1) - 1), graph = {1}\<rparr>,
         ''loss_u_p'' \<mapsto> \<lparr>data = Finite (1 / 8), graph = {2}\<rparr>,
         ''loss_v_p'' \<mapsto> \<lparr>data = Finite (1 / 8), graph = {3::nat}\<rparr>]
        \<noteq> produce_fake_densepose_losses_unsup ex_out"
    by metis
  moreover have "unsup_rows ex_loss (the (fine_segm_p ex_packed)) [True]
                   = Some [[3 / 10, 1 / 2]]"
    by (simp add: unsup_rows_def permute_0231_def reshape_rows_def index_mask_def ex_loss_def
          ex_packed_def upt_0_2)
  moreover have "pseudo_threshold ex_loss = 1" by (simp add: ex_loss_def)
  ultimately show ?thesis by (simp add: ex_unsup)
qed

lemma gate_kept_nth:
  assumes "pseudo_threshold L < 1"
    and "length pred = length conf" "length (data est) = length conf"
    and "list_ex (\<lambda>c. pseudo_threshold L \<le> c) conf"
  shows "confidence_gate L st conf pred est =
           Some (Kept (Some (map (\<lambda>c. pseudo_threshold L \<le> c) conf))
                   (map ((!) pred) (true_positions (map (\<lambda>c. pseudo_threshold L \<le> c) conf)))
                   \<lparr>data = map ((!) (data est))
                             (true_positions (map (\<lambda>c. pseudo_threshold L \<le> c) conf)),
                    graph = graph est\<rparr>)"
proof -
  let ?m = "map (\<lambda>c. pseudo_threshold L \<le> c) conf"
  from assms(4) have "filter id ?m \<noteq> []"
    by (auto simp: list_ex_iff filter_empty_conv)
  then have ne: "\<not> length (filter id ?m) \<le> 0"
    unfolding not_le length_greater_0_conv .
  have "index_mask pred ?m = Some (map ((!) pred) (true_positions ?m))"
    using assms(2) by (simp add: index_mask_def filter_zip_nth)
  moreover have "vindex_mask est ?m =
                   Some \<lparr>data = map ((!) (data est)) (true_positions ?m), graph = graph est\<rparr>"
    using assms(3) by (simp add: vindex_mask_def index_mask_def filter_zip_nth)
  moreover have "index_mask conf ?m = Some (map ((!) conf) (true_positions ?m))"
    by (simp add: index_mask_def filter_zip_nth)
  ultimately show ?thesis
    using assms(1) ne by (simp add: confidence_gate_def Let_def filter_map o_def)
qed

lemma gate_fallback:
  assumes "pseudo_threshold L < 1" and "list_all (\<lambda>c. c < pseudo_threshold L) conf"
  shows "confidence_gate L st conf pred est = Some Fallback"
proof -
  from assms(2) have "filter id (map (\<lambda>c. pseudo_threshold L \<le> c) conf) = []"
    by (auto simp: list_all_iff filter_empty_conv)
  with assms(1) show ?thesis by (simp add: confidence_gate_def Let_def)
qed

lemma unsup_fallback:
  assumes thr: "pseudo_threshold L < 1"
    and pos: "pos_index_of X L pa = Some pos"
    and attr: "fine_segm_p pa = Some t"
    and sel: "index_select (data (fine_segm out)) (bbox_indices pa) = Some sel"
    and est: "unsup_rows L sel pos = Some est"
    and pseudo: "unsup_rows L (resample_data X t (bbox_xywh_gt pa) (bbox_xywh_est pa)
                   (heatmap_size L) (heatmap_size L) Nearest Zeros) pos = Some pseudo"
    and conf: "those (map row_max pseudo) = Some conf"
    and low: "list_all (\<lambda>c. c < pseudo_threshold L) conf"
  shows "produce_densepose_losses_unsup X L ps out pa
           = Some (produce_fake_densepose_losses_unsup out)"
proof -
  have "unsup_segm_branch L out initial_state \<lparr>data = est, graph = graph (fine_segm out)\<rparr>
          pseudo = Some (Return (produce_fake_densepose_losses_unsup out))"
    by (simp add: unsup_segm_branch_def conf gate_fallback [OF thr low])
  then have "unsup_iteration X L out pa pos (''fine_segm_p'', ''fine_segm'') initial_state
               = Some (Return (produce_fake_densepose_losses_unsup out))"
    by (simp add: unsup_iteration_def getattr_packed_def getattr_output_def attr sel est pseudo)
  then show ?thesis
    by (simp add: produce_densepose_losses_unsup_def pos pseudo_keys_def est_keys_def)
qed

text \<open>
  C7, amended: with a threshold of 1 or more there is no gating, every point is kept
  whatever its confidence and the loop variables are left as they are. With a threshold
  below 1 the points kept are exactly those with \<^verbatim>\<open>segm_conf >= pseudo_threshold\<close>,
  and when none remains the gate falls back, and the branch returns the pseudo fake
  losses.
\<close>

theorem confidence_gate_below_one_only:
  "(1 \<le> pseudo_threshold L \<longrightarrow>
      confidence_gate L st conf pred est = Some (Kept (mask st) pred est))
   \<and> (pseudo_threshold L < 1 \<and> length pred = length conf \<and> length (data est) = length conf
        \<and> list_ex (\<lambda>c. pseudo_threshold L \<le> c) conf \<longrightarrow>
      confidence_gate L st conf pred est =
        Some (Kept (Some (map (\<lambda>c. pseudo_threshold L \<le> c) conf))
                (map ((!) pred) (true_positions (map (\<lambda>c. pseudo_threshold L \<le> c) conf)))
                \<lparr>data = map ((!) (data est))
                          (true_positions (map (\<lambda>c. pseudo_threshold L \<le> c) conf)),
                 graph = graph est\<rparr>)
      \<and> set (true_positions (map (\<lambda>c. pseudo_threshold L \<le> c) conf))
          = {i. i < length conf \<and> pseudo_threshold L \<le> conf ! i})
   \<and> (pseudo_threshold L < 1 \<and> list_all (\<lambda>c. c < pseudo_threshold L) conf \<longrightarrow>
      confidence_gate L st conf pred est = Some Fallback)
   \<and> (pseudo_threshold L < 1 \<and> list_all (\<lambda>c. c < pseudo_threshold L) conf
        \<and> pos_index_of X L pa = Some pos \<and> fine_segm_p pa = Some t
        \<and> index_select (data (fine_segm out)) (bbox_indices pa) = Some sel
        \<and> unsup_rows L sel pos = Some rows
        \<and> unsup_rows L (resample_data X t (bbox_xywh_gt pa) (bbox_xywh_est pa)
             (heatmap_size L) (heatmap_size L) Nearest Zeros) pos = Some pseudo
        \<and> those (map row_max pseudo) = Some conf \<longrightarrow>
      produce_densepose_losses_unsup X L ps out pa
        = Some (produce_fake_densepose_losses_unsup out))"
proof (intro conjI impI)
  assume "1 \<le> pseudo_threshold L"
  then show "confidence_gate L st conf pred est = Some (Kept (mask st) pred est)"
    by (simp add: confidence_gate_def)
next
  assume h: "pseudo_threshold L < 1 \<and> length pred = length conf
               \<and> length (data est) = length conf
               \<and> list_ex (\<lambda>c. pseudo_threshold L \<le> c) conf"
  then show "confidence_gate L st conf pred est =
        Some (Kept (Some (map (\<lambda>c. pseudo_threshold L \<le> c) conf))
                (map ((!) pred) (true_positions (map (\<lambda>c. pseudo_threshold L \<le> c) conf)))
                \<lparr>data = map ((!) (data est))
                          (true_positions (map (\<lambda>c. pseudo_threshold L \<le> c) conf)),
                 graph = graph est\<rparr>)"
    by (intro gate_kept_nth) simp_all
  show "set (true_positions (map (\<lambda>c. pseudo_threshold L \<le> c) conf))
          = {i. i < length conf \<and> pseudo_threshold L \<le> conf ! i}"
    by (auto simp: true_positions_def)
next
  assume "pseudo_threshold L < 1 \<and> list_all (\<lambda>c. c < pseudo_threshold L) conf"
  then show "confidence_gate L st conf pred est = Some Fallback"
    by (intro gate_fallback) simp_all
next
  assume "pseudo_threshold L < 1 \<and> list_all (\<lambda>c. c < pseudo_threshold L) conf
        \<and> pos_index_of X L pa = Some pos \<and> fine_segm_p pa = Some t
        \<and> index_select (data (fine_segm out)) (bbox_indices pa) = Some sel
        \<and> unsup_rows L sel pos = Some rows
        \<and> unsup_rows L (resample_data X t (bbox_xywh_gt pa) (bbox_xywh_est pa)
             (heatmap_size L) (heatmap_size L) Nearest Zeros) pos = Some pseudo
        \<and> those (map row_max pseudo) = Some conf"
  then show "produce_densepose_losses_unsup X L ps out pa
        = Some (produce_fake_densepose_losses_unsup out)"
    by (intro unsup_fallback [of L X pa pos t out sel rows pseudo conf]) simp_all
qed


text \<open>
  The gate at the thresholds 1 and 0.9, and the branch at 0.9 on the example, whose only
  point has the confidence 1/2.
\<close>

theorem confidence_gate_below_one_only_witness:
  "pseudo_threshold ex_loss = 1
   \<and> confidence_gate ex_loss initial_state [1 / 2] [[1]] \<lparr>data = [[0, 1]], graph = {1}\<rparr>
       = Some (Kept None [[1]] \<lparr>data = [[0, 1]], graph = {1}\<rparr>)
   \<and> pseudo_threshold ex_loss_gated = 9 / 10
   \<and> confidence_gate ex_loss_gated initial_state [1 / 2, 19 / 20] [[1], [0]]
         \<lparr>data = [[0, 1], [1, 0]], graph = {1}\<rparr>
       = Some (Kept (Some [False, True]) [[0]] \<lparr>data = [[1, 0]], graph = {1}\<rparr>)
   \<and> confidence_gate ex_loss_gated initial_state [1 / 2] [[1]] \<lparr>data = [[0, 1]], graph = {1}\<rparr>
       = Some Fallback
   \<and> produce_densepose_losses_unsup ex_collaborators ex_loss_gated [Some ex_packed] ex_out
         ex_packed = Some (produce_fake_densepose_losses_unsup ex_out)"
proof -
  have t1: "pseudo_threshold ex_loss = 1" and t2: "pseudo_threshold ex_loss_gated = 9 / 10"
    by (simp_all add: ex_loss_def ex_loss_gated_def)
  have m0: "mask initial_state = None" by (simp add: initial_state_def)
  have a: "confidence_gate ex_loss initial_state [1 / 2] [[1]] \<lparr>data = [[0, 1]], graph = {1}\<rparr>
             = Some (Kept None [[1]] \<lparr>data = [[0, 1]], graph = {1}\<rparr>)"
    using confidence_gate_below_one_only
            [of ex_loss initial_state "[1 / 2]" "[[1]]" "\<lparr>data = [[0, 1]], graph = {1}\<rparr>",
             THEN conjunct1]
    by (simp add: t1 m0)
  have tp: "true_positions [False, True] = [Suc 0]"
    by (simp add: true_positions_def upt_0_2)
  have b: "confidence_gate ex_loss_gated initial_state [1 / 2, 19 / 20] [[1], [0]]
             \<lparr>data = [[0, 1], [1, 0]], graph = {1}\<rparr>
           = Some (Kept (Some [False, True]) [[0]] \<lparr>data = [[1, 0]], graph = {1}\<rparr>)"
  proof -
    have hb: "pseudo_threshold ex_loss_gated < 1
              \<and> length [[1], [0::nat]] = length [1 / 2, 19 / 20 :: real]
              \<and> length (data \<lparr>data = [[0, 1], [1, 0 :: real]], graph = {1::nat}\<rparr>)
                  = length [1 / 2, 19 / 20 :: real]
              \<and> list_ex (\<lambda>c. pseudo_threshold ex_loss_gated \<le> c) [1 / 2, 19 / 20]"
      by (simp add: t2)
    from confidence_gate_below_one_only
            [of ex_loss_gated initial_state "[1 / 2, 19 / 20]" "[[1], [0]]"
                "\<lparr>data = [[0, 1], [1, 0]], graph = {1}\<rparr>",
             THEN conjunct2, THEN conjunct1, THEN mp, OF hb, THEN conjunct1]
    show ?thesis by (simp add: t2 tp)
  qed
  have c: "confidence_gate ex_loss_gated initial_state [1 / 2] [[1]]
             \<lparr>data = [[0, 1]], graph = {1}\<rparr> = Some Fallback"
    using confidence_gate_below_one_only
            [of ex_loss_gated initial_state "[1 / 2]" "[[1]]" "\<lparr>data = [[0, 1]], graph = {1}\<rparr>",
             THEN conjunct2, THEN conjunct2, THEN conjunct1]
    by (simp add: t2)
  have pos: "pos_index_of ex_collaborators ex_loss_gated ex_packed = Some [True]"
    by (simp add: pos_index_of_def ex_collaborators_def ex_loss_def ex_loss_gated_def
          ex_packed_def unsqueeze1_def squeeze1_def)
  have attr: "fine_segm_p ex_packed = Some \<lparr>shape = [1, 2, 1, 1], elems = [3 / 10, 1 / 2]\<rparr>"
    by (simp add: ex_packed_def)
  have sel: "index_select (data (fine_segm ex_out)) (bbox_indices ex_packed)
               = Some \<lparr>shape = [1, 2, 1, 1], elems = [0, 1]\<rparr>"
    by (simp add: index_select_def ex_out_def ex_packed_def)
  have rows: "unsup_rows ex_loss_gated \<lparr>shape = [1, 2, 1, 1], elems = [0, 1]\<rparr> [True]
                = Some [[0, 1]]"
    by (simp add: unsup_rows_def permute_0231_def reshape_rows_def index_mask_def
          ex_loss_gated_def ex_loss_def upt_0_2)
  have pseudo: "unsup_rows ex_loss_gated
                  (resample_data ex_collaborators \<lparr>shape = [1, 2, 1, 1], elems = [3 / 10, 1 / 2]\<rparr>
                     (bbox_xywh_gt ex_packed) (bbox_xywh_est ex_packed)
                     (heatmap_size ex_loss_gated) (heatmap_size ex_loss_gated) Nearest Zeros)
                  [True] = Some [[3 / 10, 1 / 2]]"
    by (simp add: unsup_rows_def permute_0231_def reshape_rows_def index_mask_def
          ex_loss_gated_def ex_loss_def ex_collaborators_def upt_0_2)
  have conf: "those (map row_max [[3 / 10, 1 / 2]]) = Some [1 / 2]" by simp
  have d: "produce_densepose_losses_unsup ex_collaborators ex_loss_gated [Some ex_packed] ex_out
             ex_packed = Some (produce_fake_densepose_losses_unsup ex_out)"
    using confidence_gate_below_one_only
            [of ex_loss_gated _ "[1 / 2]" _ _ ex_collaborators ex_packed "[True]"
                "\<lparr>shape = [1, 2, 1, 1], elems = [3 / 10, 1 / 2]\<rparr>" ex_out
                "\<lparr>shape = [1, 2, 1, 1], elems = [0, 1]\<rparr>" "[[0, 1]]" "[[3 / 10, 1 / 2]]"
                "[Some ex_packed]",
             THEN conjunct2, THEN conjunct2, THEN conjunct2]
      pos attr sel rows pseudo conf
    by (simp add: t2)
  from t1 t2 a b c d show ?thesis by simp
qed

text \<open>
  C8 on an input whose resampled coarse segmentation has no foreground pixel. With the
  threshold 1 (no gating) the branch does not fall back: the three losses are means of
  empty tensors, not-a-number. With the threshold 0.9 the check of the gate catches the
  empty selection and the branch returns the fake losses.
\<close>

theorem unsup_nan_on_empty_pos_index:
  "pseudo_threshold ex_loss = 1 \<and> loss_name ex_loss = ''ce''
   \<and> pos_index_of ex_collaborators ex_loss ex_packed_no_foreground_pixel = Some [False]
   \<and> produce_densepose_losses_unsup ex_collaborators ex_loss [Some ex_packed_no_foreground_pixel]
        ex_out ex_packed_no_foreground_pixel
       = Some [''loss_unsup_segm'' \<mapsto> \<lparr>data = NaN, graph = {1}\<rparr>,
               ''loss_u_p'' \<mapsto> \<lparr>data = NaN, graph = {2}\<rparr>,
               ''loss_v_p'' \<mapsto> \<lparr>data = NaN, graph = {3}\<rparr>]
   \<and> produce_fake_densepose_losses_unsup ex_out ''loss_unsup_segm''
       = Some \<lparr>data = Finite 0, graph = {1}\<rparr>
   \<and> pseudo_threshold ex_loss_gated = 9 / 10
   \<and> produce_densepose_losses_unsup ex_collaborators ex_loss_gated
        [Some ex_packed_no_foreground_pixel] ex_out ex_packed_no_foreground_pixel
       = Some (produce_fake_densepose_losses_unsup ex_out)"
  by (simp add: ex_pos_empty ex_unsup_empty ex_unsup_empty_gated)
     (simp add: ex_loss_def ex_loss_gated_def produce_fake_densepose_losses_unsup_def smul_def
        tsum_def ex_out_def)

lemma getattr_packed_fields:
  "getattr_packed pa ''fine_segm_p'' = Some (fine_segm_p pa)"
  "getattr_packed pa ''u_p'' = Some (u_p pa)"
  "getattr_packed pa ''v_p'' = Some (v_p pa)"
  by (simp_all add: getattr_packed_def)

text \<open>
  C10: a map returned by the pseudo-label branch is either the fake map, or the three
  pseudo fields are all present, each of the three iterations ran to its end and the map
  is what they accumulated. In particular, if \<^verbatim>\<open>fine_segm_p\<close> is present and \<^verbatim>\<open>u_p\<close> or
  \<^verbatim>\<open>v_p\<close> is absent, the map is the fake map, whatever the first iteration computed.
  Under the loss names \<^verbatim>\<open>"ce"\<close> and \<^verbatim>\<open>"sce"\<close> the map has exactly the three keys.
\<close>

theorem unsup_all_real_or_all_fake:
  assumes "produce_densepose_losses_unsup X L ps out pa = Some m"
  shows "(m = produce_fake_densepose_losses_unsup out
          \<or> (fine_segm_p pa \<noteq> None \<and> u_p pa \<noteq> None \<and> v_p pa \<noteq> None
               \<and> (\<exists>pos st1 st2 st3. pos_index_of X L pa = Some pos
                    \<and> unsup_iteration X L out pa pos (''fine_segm_p'', ''fine_segm'')
                         initial_state = Some (Continue st1)
                    \<and> unsup_iteration X L out pa pos (''u_p'', ''u'') st1 = Some (Continue st2)
                    \<and> unsup_iteration X L out pa pos (''v_p'', ''v'') st2 = Some (Continue st3)
                    \<and> m = losses st3)))
       \<and> (fine_segm_p pa \<noteq> None \<and> (u_p pa = None \<or> v_p pa = None)
            \<longrightarrow> m = produce_fake_densepose_losses_unsup out)
       \<and> (loss_name L = ''ce'' \<or> loss_name L = ''sce''
            \<longrightarrow> dom m = {''loss_unsup_segm'', ''loss_u_p'', ''loss_v_p''})"
proof -
  have main: "m = produce_fake_densepose_losses_unsup out
          \<or> (fine_segm_p pa \<noteq> None \<and> u_p pa \<noteq> None \<and> v_p pa \<noteq> None
               \<and> (\<exists>pos st1 st2 st3. pos_index_of X L pa = Some pos
                    \<and> unsup_iteration X L out pa pos (''fine_segm_p'', ''fine_segm'')
                         initial_state = Some (Continue st1)
                    \<and> unsup_iteration X L out pa pos (''u_p'', ''u'') st1 = Some (Continue st2)
                    \<and> unsup_iteration X L out pa pos (''v_p'', ''v'') st2 = Some (Continue st3)
                    \<and> m = losses st3))"
    using unsup_cases [OF assms]
  proof (elim disjE exE conjE)
    assume "m = produce_fake_densepose_losses_unsup out"
    then show ?thesis by simp
  next
    fix pos st1 st2 st3
    assume pos: "pos_index_of X L pa = Some pos"
      and i1: "unsup_iteration X L out pa pos (''fine_segm_p'', ''fine_segm'') initial_state
                 = Some (Continue st1)"
      and i2: "unsup_iteration X L out pa pos (''u_p'', ''u'') st1 = Some (Continue st2)"
      and i3: "unsup_iteration X L out pa pos (''v_p'', ''v'') st2 = Some (Continue st3)"
      and m: "m = losses st3"
    from iteration_Continue [OF i1] have "fine_segm_p pa \<noteq> None"
      by (auto simp: getattr_packed_fields)
    moreover from iteration_Continue [OF i2] have "u_p pa \<noteq> None"
      by (auto simp: getattr_packed_fields)
    moreover from iteration_Continue [OF i3] have "v_p pa \<noteq> None"
      by (auto simp: getattr_packed_fields)
    ultimately show ?thesis using pos i1 i2 i3 m by blast
  qed
  from main have "fine_segm_p pa \<noteq> None \<and> (u_p pa = None \<or> v_p pa = None)
            \<longrightarrow> m = produce_fake_densepose_losses_unsup out"
    by blast
  moreover have "loss_name L = ''ce'' \<or> loss_name L = ''sce''
            \<longrightarrow> dom m = {''loss_unsup_segm'', ''loss_u_p'', ''loss_v_p''}"
    using unsup_dom [OF assms] by blast
  ultimately show ?thesis using main by (intro conjI)
qed

text \<open>
  In the example without \<^verbatim>\<open>u_p\<close> the first iteration computes a real cross-entropy and
  the second returns the fake map.
\<close>

theorem unsup_all_real_or_all_fake_witness:
  "fine_segm_p ex_packed_no_u_p \<noteq> None \<and> u_p ex_packed_no_u_p = None
   \<and> produce_densepose_losses_unsup ex_collaborators ex_loss [Some ex_packed_no_u_p] ex_out
        ex_packed_no_u_p = Some (produce_fake_densepose_losses_unsup ex_out)
   \<and> dom (produce_fake_densepose_losses_unsup ex_out)
       = {''loss_unsup_segm'', ''loss_u_p'', ''loss_v_p''}"
proof -
  obtain m where m: "produce_densepose_losses_unsup ex_collaborators ex_loss
      [Some ex_packed_no_u_p] ex_out ex_packed_no_u_p = Some m"
    using ex_unsup_no_u_p by blast
  have f: "fine_segm_p ex_packed_no_u_p \<noteq> None" and n: "u_p ex_packed_no_u_p = None"
    by (simp_all add: ex_packed_no_u_p_def ex_packed_def)
  have l: "loss_name ex_loss = ''ce''" by (simp add: ex_loss_def)
  note T = unsup_all_real_or_all_fake [OF m]
  from T [THEN conjunct2, THEN conjunct1] f n
  have e: "m = produce_fake_densepose_losses_unsup ex_out" by blast
  from T [THEN conjunct2, THEN conjunct2] l
  have "dom m = {''loss_unsup_segm'', ''loss_u_p'', ''loss_v_p''}" by blast
  with m e f n show ?thesis by simp
qed

end
